theory Spec2Isabelle
  imports Main "HOL-Library.Multiset"
begin

section \<open>Strings as the client code reads them\<close>

text \<open>
  The client is JavaScript. A string is modelled as a list of characters; the character
  classes below are the ones the regular expressions and \<open>String.prototype.trim\<close> of the
  source use. \<open>\d\<close> without the unicode flag is exactly the ten ASCII digits; the white
  space that \<open>trim\<close> removes is, among the characters below 256, tab, line feed, vertical tab,
  form feed, carriage return, space and the no-break space.
\<close>

definition isDigit :: "char \<Rightarrow> bool" where
  "isDigit c = (c \<in> set ''0123456789'')"

definition isSpace :: "char \<Rightarrow> bool" where
  "isSpace c = (of_char c \<in> {9, 10, 11, 12, 13, 32, 160 :: nat})"

definition trim :: "string \<Rightarrow> string" where
  "trim s = rev (dropWhile isSpace (rev (dropWhile isSpace s)))"

section \<open>APIUtils.isValidPhoneFormat (src/web/js/api.js, lines 358-373)\<close>

text \<open>
  The four patterns of the source are anchored at both ends and consist of literal
  characters and \<open>\d\<close> only, so a pattern is a list of atoms and \<open>test\<close> is a
  position-by-position match of the whole string.
\<close>

datatype atom = Lit char | Digit

fun atom_ok :: "atom \<Rightarrow> char \<Rightarrow> bool" where
  "atom_ok (Lit a) c = (a = c)"
| "atom_ok Digit c = isDigit c"

fun test :: "atom list \<Rightarrow> string \<Rightarrow> bool" where
  "test [] [] = True"
| "test (a # as) (c # cs) = (atom_ok a c \<and> test as cs)"
| "test _ _ = False"

definition patterns :: "atom list list" where
  "patterns =
    [ map Lit ''+234'' @ replicate 10 Digit,
      map Lit ''234'' @ replicate 10 Digit,
      map Lit ''0'' @ replicate 10 Digit,
      replicate 10 Digit ]"

definition cleaned :: "string \<Rightarrow> string" where
  "cleaned phoneNumber = filter (\<lambda>c. isDigit c \<or> c = CHR ''+'') phoneNumber"

definition isValidPhoneFormat :: "string \<Rightarrow> bool" where
  "isValidPhoneFormat phoneNumber =
    (if phoneNumber = [] then False
     else list_ex (\<lambda>pattern. test pattern (cleaned phoneNumber)) patterns)"

section \<open>PhoneTrackerApp.validateNumber (src/unnamed/part\_000, lines 242-287), up to the request\<close>

text \<open>
  \<open>validateNumber\<close> reads the input field, trims it, and either shows a warning toast and
  returns, or sends the trimmed text to the API. What it does with the response is
  display only and is not modelled.
\<close>

datatype gate = Warned string | Requested string

definition validateNumber :: "string \<Rightarrow> gate" where
  "validateNumber input_value =
    (let phoneNumber = trim input_value in
     if phoneNumber = [] then Warned ''Please enter a phone number''
     else if \<not> isValidPhoneFormat phoneNumber then Warned ''Invalid phone number format''
     else Requested phoneNumber)"

text \<open>The four shapes, as the specification words them.\<close>

definition ten_digits :: "string \<Rightarrow> bool" where
  "ten_digits d = (length d = 10 \<and> list_all isDigit d)"

definition accepted_shape :: "string \<Rightarrow> bool" where
  "accepted_shape t =
    (\<exists>d. ten_digits d \<and> (t = ''+234'' @ d \<or> t = ''234'' @ d \<or> t = ''0'' @ d \<or> t = d))"

section \<open>The textual formats of a number (README, ``Supported Phone Number Formats'')\<close>

text \<open>
  Modelled from the spec: CanonicalNumber of section 3 (the backend's number type is
  missing): a country code, a national number and the original text; two numbers are the
  same when the first two parts agree.
\<close>

record canonical_number =
  countryCode :: string
  nationalNumber :: string
  rawInput :: string

definition number_key :: "canonical_number \<Rightarrow> string \<times> string" where
  "number_key n = (countryCode n, nationalNumber n)"

text \<open>
  The README lists the supported renderings: international with \<open>+\<close>, local with a leading
  zero, local without it. Spaces and hyphens may separate groups of digits.
\<close>

definition international :: "canonical_number \<Rightarrow> string" where
  "international n = ''+'' @ countryCode n @ nationalNumber n"

definition local_with_zero :: "canonical_number \<Rightarrow> string" where
  "local_with_zero n = ''0'' @ nationalNumber n"

definition local_without_zero :: "canonical_number \<Rightarrow> string" where
  "local_without_zero n = nationalNumber n"

definition renderings :: "canonical_number \<Rightarrow> string list" where
  "renderings n = [international n, local_with_zero n, local_without_zero n]"

definition isSeparator :: "char \<Rightarrow> bool" where
  "isSeparator c = (c = CHR '' '' \<or> c = CHR ''-'')"

definition unseparated :: "string \<Rightarrow> string" where
  "unseparated s = filter (\<lambda>c. \<not> isSeparator c) s"

section \<open>Joined arrays and dated file names\<close>

text \<open>\<open>Array.prototype.join\<close> on an array of strings.\<close>

fun join :: "string list \<Rightarrow> string \<Rightarrow> string" where
  "join [] sep = []"
| "join [x] sep = x"
| "join (x # y # zs) sep = x @ sep @ join (y # zs) sep"

text \<open>
  The clock (\<open>new Date().toISOString()\<close>) is an argument \<open>now\<close> of whatever reads it;
  \<open>split('T')[0]\<close> keeps its date part. Both classes name their downloads
  \<open>nigeria_phone_tracker_<date><extension>\<close>.
\<close>

definition date_part :: "string \<Rightarrow> string" where
  "date_part now = takeWhile (\<lambda>c. c \<noteq> CHR ''T'') now"

definition default_filename :: "string \<Rightarrow> string \<Rightarrow> string" where
  "default_filename now ext = ''nigeria_phone_tracker_'' @ date_part now @ ext"

section \<open>PhoneTrackerAPI (src/web/js/api.js, lines 2-225)\<close>

subsection \<open>Error objects\<close>

text \<open>
  A JavaScript error object has a \<open>name\<close> (the constructor's: \<open>Error\<close>, \<open>TypeError\<close>,
  \<open>SyntaxError\<close>) and a \<open>message\<close>. The source creates its errors with \<open>new Error(text)\<close>
  and rethrows what it catches; it never adds a property to an error. The texts of the
  engine's own errors are V8's, the engine of the Electron shell.
\<close>

record js_error =
  name :: string
  message :: string

definition new_Error :: "string \<Rightarrow> js_error" where
  "new_Error m = \<lparr>name = ''Error'', message = m\<rparr>"

definition new_TypeError :: "string \<Rightarrow> js_error" where
  "new_TypeError m = \<lparr>name = ''TypeError'', message = m\<rparr>"

text \<open>Decimal digits of a number, as a template literal prints \<open>response.status\<close>.\<close>

function show_nat :: "nat \<Rightarrow> string" where
  "show_nat n = (if n < 10 then [''0123456789'' ! n] else show_nat (n div 10) @ [''0123456789'' ! (n mod 10)])"
  by pat_completeness auto
termination
  by (relation "measure (\<lambda>n. n)") auto

declare show_nat.simps [simp del]

subsection \<open>Parsed JSON\<close>

text \<open>
  What \<open>response.json()\<close> resolves to is any JSON value. A number is held as the text
  \<open>String\<close> gives for it (\<open>0\<close> for both zeros), which is all the code can observe of it; an
  object is the list of its members in the order of the body text, and a name that occurs
  twice has the value of its last occurrence.
\<close>

datatype json =
    JNull
  | JBool bool
  | JNum string
  | JStr string
  | JArr "json list"
  | JObj "(string \<times> json) list"

definition own_member :: "(string \<times> json) list \<Rightarrow> string \<Rightarrow> json option" where
  "own_member members k = map_of (rev members) k"


text \<open>
  The text \<open>new Error(value)\<close> takes as its message (\<open>ToString\<close>). An array is its elements
  joined by commas, \<open>null\<close> elements giving the empty text. A parsed object has no callable
  member of its own, so it prints as \<open>[object Object]\<close> through \<open>Object.prototype.toString\<close>,
  unless it has a member \<open>toString\<close> of its own, which hides the inherited one: then the
  conversion throws a \<open>TypeError\<close> (\<open>None\<close>).
\<close>

fun to_text :: "json \<Rightarrow> string option"
  and element_texts :: "json list \<Rightarrow> string list option" where
  "to_text JNull = Some ''null''"
| "to_text (JBool b) = Some (if b then ''true'' else ''false'')"
| "to_text (JNum t) = Some t"
| "to_text (JStr s) = Some s"
| "to_text (JArr xs) = map_option (\<lambda>texts. join texts '','') (element_texts xs)"
| "to_text (JObj members) =
    (if own_member members ''toString'' = None then Some ''[object Object]'' else None)"
| "element_texts [] = Some []"
| "element_texts (x # xs) =
    (case (if x = JNull then Some [] else to_text x) of
       None \<Rightarrow> None
     | Some t \<Rightarrow> map_option (\<lambda>texts. t # texts) (element_texts xs))"

subsection \<open>What fetch answers\<close>



record 'b response =
  ok :: bool
  status :: nat
  payload :: 'b


subsection \<open>request and importCSV (lines 12-32, 168-190)\<close>

definition http_error :: "nat \<Rightarrow> string" where
  "http_error code = ''HTTP error! status: '' @ show_nat code"






subsection \<open>exportCSV, exportJSON and backupDatabase (lines 120-165, 193-217)\<close>





section \<open>PhoneTrackerExport (src/unnamed/part\_001)\<close>

subsection \<open>The records the client holds\<close>

text \<open>
  A row is an object of the backend's listing. Its members are strings, or absent
  (\<open>null\<close>, \<open>undefined\<close>, no such member: \<open>None\<close>); \<open>is_valid\<close> is a boolean.
  \<open>String(value)\<close> of a string is the string itself.
\<close>

record phone_row =
  phone_number :: "string option"
  carrier :: "string option"
  region :: "string option"
  timezone :: "string option"
  phone_type :: "string option"
  date_added :: "string option"
  last_tracked :: "string option"
  "notes" :: "string option"
  is_valid :: bool

text \<open>
  The members every object inherits from \<open>Object.prototype\<close>, each with the text it has
  as a string (V8, the engine of the Electron shell).
\<close>

definition native :: "string \<Rightarrow> string \<times> string" where
  "native f = (f, ''function '' @ f @ ''() { [native code] }'')"

definition object_prototype :: "(string \<times> string) list" where
  "object_prototype =
    [ (''constructor'', ''function Object() { [native code] }''),
      native ''__defineGetter__'', native ''__defineSetter__'', native ''hasOwnProperty'',
      native ''__lookupGetter__'', native ''__lookupSetter__'', native ''isPrototypeOf'',
      native ''propertyIsEnumerable'', native ''toString'', native ''valueOf'',
      (''__proto__'', ''[object Object]''), native ''toLocaleString'' ]"

definition inherited :: "string \<Rightarrow> string option" where
  "inherited k = map_of object_prototype k"

text \<open>\<open>String(row[field] || '')\<close>: a missing or empty member gives the empty string.\<close>

definition or_empty :: "string option \<Rightarrow> string" where
  "or_empty v = (case v of None \<Rightarrow> [] | Some s \<Rightarrow> s)"

definition cell :: "phone_row \<Rightarrow> string \<Rightarrow> string" where
  "cell row field =
    (if field = ''phone_number'' then or_empty (phone_number row)
     else if field = ''carrier'' then or_empty (carrier row)
     else if field = ''region'' then or_empty (region row)
     else if field = ''timezone'' then or_empty (timezone row)
     else if field = ''phone_type'' then or_empty (phone_type row)
     else if field = ''date_added'' then or_empty (date_added row)
     else if field = ''last_tracked'' then or_empty (last_tracked row)
     else if field = ''notes'' then or_empty (notes row)
     else if field = ''is_valid'' then (if is_valid row then ''true'' else [])
     else or_empty (inherited field))"

subsection \<open>formatCSVHeader and formatCSVValue (lines 351-370)\<close>

text \<open>Letter case, for the ASCII letters (the field names and format names of the source).\<close>

definition lower_case :: string where
  "lower_case = ''abcdefghijklmnopqrstuvwxyz''"

definition upper_case :: string where
  "upper_case = ''ABCDEFGHIJKLMNOPQRSTUVWXYZ''"

definition toUpperCase :: "char \<Rightarrow> char" where
  "toUpperCase c = (case map_of (zip lower_case upper_case) c of None \<Rightarrow> c | Some u \<Rightarrow> u)"

definition toLowerCase :: "char \<Rightarrow> char" where
  "toLowerCase c = (case map_of (zip upper_case lower_case) c of None \<Rightarrow> c | Some l \<Rightarrow> l)"

definition isWord :: "char \<Rightarrow> bool" where
  "isWord c = (isDigit c \<or> c \<in> set lower_case \<or> c \<in> set upper_case \<or> c = CHR ''_'')"

text \<open>
  \<open>replace(/\b\w/g, l => l.toUpperCase())\<close>: a word character is at a word boundary when
  the character before it is not a word character (or there is none).
\<close>

fun capitalize :: "bool \<Rightarrow> string \<Rightarrow> string" where
  "capitalize after_word [] = []"
| "capitalize after_word (c # cs) =
    (if isWord c \<and> \<not> after_word then toUpperCase c else c) # capitalize (isWord c) cs"

definition formatCSVHeader :: "string \<Rightarrow> string" where
  "formatCSVHeader field =
    capitalize False (map (\<lambda>c. if c = CHR ''_'' then CHR '' '' else c) field)"

text \<open>\<open>String.prototype.includes\<close>: the argument occurs somewhere in the string.\<close>

fun str_includes :: "string \<Rightarrow> string \<Rightarrow> bool" where
  "str_includes [] sub = (sub = [])"
| "str_includes (c # cs) sub = (take (length sub) (c # cs) = sub \<or> str_includes cs sub)"

definition double_quotes :: "string \<Rightarrow> string" where
  "double_quotes s = concat (map (\<lambda>c. if c = CHR 0x22 then [CHR 0x22, CHR 0x22] else [c]) s)"

definition formatCSVValue :: "string option \<Rightarrow> string \<Rightarrow> string" where
  "formatCSVValue v delimiter =
    (case v of
       None \<Rightarrow> []
     | Some stringValue \<Rightarrow>
         if str_includes stringValue delimiter \<or> str_includes stringValue [CHR 0x22]
            \<or> str_includes stringValue [CHR 0x0A]
         then [CHR 0x22] @ double_quotes stringValue @ [CHR 0x22]
         else stringValue)"

subsection \<open>Options, errors and results\<close>

text \<open>
  One record holds the options the exporters destructure and act on; \<open>None\<close> is a member
  the caller left out, for which the source's default applies. The options that only reach
  the layout of a report (\<open>title\<close>, \<open>includeCharts\<close>, \<open>sheetName\<close>) are left out.
\<close>

record export_options =
  opt_filename :: "string option"
  includeHeaders :: "bool option"
  delimiter :: "string option"
  opt_fields :: "string list option"
  prettyPrint :: "bool option"
  includeMetadata :: "bool option"
  includeSummary :: "bool option"

definition no_options :: export_options where
  "no_options = \<lparr>opt_filename = None, includeHeaders = None, delimiter = None, opt_fields = None,
     prettyPrint = None, includeMetadata = None, includeSummary = None\<rparr>"

text \<open>
  What an exporter is given as \<open>data\<close>: nothing (\<open>null\<close>, \<open>undefined\<close>), an array of rows,
  or some other object (\<open>createBackup\<close> passes one).
\<close>

datatype 'o export_input = Missing | RecordArray "phone_row list" | OtherObject 'o

record download =
  content :: string
  saved_as :: string
  mimeType :: string

record export_result =
  success :: bool
  filename :: string
  recordCount :: nat

subsection \<open>exportToCSV (lines 24-68)\<close>

definition defaultFields :: "string list" where
  "defaultFields = [''phone_number'', ''carrier'', ''region'', ''timezone'',
     ''phone_type'', ''date_added'', ''last_tracked'', ''notes'']"

definition csv_row :: "string list \<Rightarrow> string \<Rightarrow> phone_row \<Rightarrow> string" where
  "csv_row exportFields delim row =
    join (map (\<lambda>field. formatCSVValue (Some (cell row field)) delim) exportFields) delim"

definition exportToCSV ::
  "string \<Rightarrow> 'o export_input \<Rightarrow> export_options \<Rightarrow> js_error + (download \<times> export_result)" where
  "exportToCSV now data options =
    (let fname = (case opt_filename options of None \<Rightarrow> default_filename now ''.csv'' | Some f \<Rightarrow> f);
         headers_wanted = (case includeHeaders options of None \<Rightarrow> True | Some b \<Rightarrow> b);
         delim = (case delimiter options of None \<Rightarrow> '','' | Some d \<Rightarrow> d);
         exportFields = (case opt_fields options of None \<Rightarrow> defaultFields | Some fs \<Rightarrow> fs)
     in case data of
          RecordArray (r # rs) \<Rightarrow>
            (let header = (if headers_wanted
                           then join (map formatCSVHeader exportFields) delim @ [CHR 0x0A]
                           else []);
                 csvContent = header @ concat (map (\<lambda>row. csv_row exportFields delim row @ [CHR 0x0A]) (r # rs))
             in Inr (\<lparr>content = csvContent, saved_as = fname, mimeType = ''text/csv''\<rparr>,
                     \<lparr>success = True, filename = fname, recordCount = length (r # rs)\<rparr>))
        | _ \<Rightarrow> Inl (new_Error ''No data to export''))"

subsection \<open>exportToJSON (lines 71-109)\<close>

record json_metadata =
  total_records :: nat
  export_format :: string
  generated_by :: string

record 'o json_export =
  export_date :: string
  version :: string
  application :: string
  metadata :: "json_metadata option"
  data :: "'o export_input"

text \<open>
  \<open>JSON.stringify\<close> belongs to the language, not to the repository: it is an argument,
  called with the \<open>prettyPrint\<close> flag (indentation 2 or none) and the document.
\<close>

definition exportToJSON ::
  "(bool \<Rightarrow> 'o json_export \<Rightarrow> string) \<Rightarrow> string \<Rightarrow> 'o export_input \<Rightarrow> export_options
    \<Rightarrow> js_error + (download \<times> export_result)" where
  "exportToJSON stringify now input options =
    (let fname = (case opt_filename options of None \<Rightarrow> default_filename now ''.json'' | Some f \<Rightarrow> f);
         pretty = (case prettyPrint options of None \<Rightarrow> True | Some b \<Rightarrow> b);
         with_metadata = (case includeMetadata options of None \<Rightarrow> True | Some b \<Rightarrow> b);
         n = (case input of RecordArray rs \<Rightarrow> length rs | _ \<Rightarrow> 1)
     in case input of
          Missing \<Rightarrow> Inl (new_Error ''No data to export'')
        | _ \<Rightarrow>
          (let exportData =
                 \<lparr>export_date = now, version = ''2.0.0'',
                  application = ''Nigeria Phone Tracker - Professional Edition'',
                  metadata = (if with_metadata
                              then Some \<lparr>total_records = n, export_format = ''json'',
                                         generated_by = ''Nigeria Phone Tracker''\<rparr>
                              else None),
                  data = input\<rparr>
           in Inr (\<lparr>content = stringify pretty exportData, saved_as = fname,
                     mimeType = ''application/json''\<rparr>,
                   \<lparr>success = True, filename = fname, recordCount = n\<rparr>)))"

subsection \<open>generateSummaryStats (lines 241-271)\<close>

text \<open>
  The three distributions are plain objects used as counters:
  \<open>stats.carriers[carrier] = (stats.carriers[carrier] || 0) + 1\<close>. An object is its own
  members in insertion order; a read of a member the object does not have falls through to
  \<open>Object.prototype\<close>. A count is a number until \<open>+ 1\<close> is applied to an inherited member,
  which concatenates text. Assigning text to \<open>__proto__\<close> stores nothing.
\<close>

datatype member = Num nat | Str string

type_synonym counter = "(string \<times> member) list"

fun set_member :: "counter \<Rightarrow> string \<Rightarrow> member \<Rightarrow> counter" where
  "set_member [] k v = [(k, v)]"
| "set_member ((k', v') # ms) k v =
    (if k' = k then (k, v) # ms else (k', v') # set_member ms k v)"

definition get_member :: "counter \<Rightarrow> string \<Rightarrow> member option" where
  "get_member obj k =
    (case map_of obj k of Some v \<Rightarrow> Some v | None \<Rightarrow> map_option Str (inherited k))"

definition plus_one :: "member option \<Rightarrow> member" where
  "plus_one cur =
    (case cur of
       None \<Rightarrow> Num 1
     | Some (Num n) \<Rightarrow> Num (n + 1)
     | Some (Str s) \<Rightarrow> if s = [] then Num 1 else Str (s @ ''1''))"

definition tally :: "counter \<Rightarrow> string \<Rightarrow> counter" where
  "tally obj k =
    (if k = ''__proto__'' then obj else set_member obj k (plus_one (get_member obj k)))"

definition or_Unknown :: "string option \<Rightarrow> string" where
  "or_Unknown v = (case v of None \<Rightarrow> ''Unknown'' | Some s \<Rightarrow> if s = [] then ''Unknown'' else s)"

record summary_stats =
  stats_total_records :: nat
  valid_numbers :: nat
  invalid_numbers :: nat
  carriers :: counter
  phone_types :: counter
  regions :: counter

datatype summary = NoData nat string | Summary summary_stats

definition count_item :: "phone_row \<Rightarrow> summary_stats \<Rightarrow> summary_stats" where
  "count_item item stats =
    stats\<lparr>carriers := tally (carriers stats) (or_Unknown (carrier item)),
          phone_types := tally (phone_types stats) (or_Unknown (phone_type item)),
          regions := tally (regions stats) (or_Unknown (region item))\<rparr>"

definition generateSummaryStats :: "phone_row list \<Rightarrow> summary" where
  "generateSummaryStats rows =
    (if rows = [] then NoData 0 ''No data available''
     else Summary (fold count_item rows
            \<lparr>stats_total_records = length rows,
             valid_numbers = length (filter is_valid rows),
             invalid_numbers = length (filter (\<lambda>item. \<not> is_valid item) rows),
             carriers = [], phone_types = [], regions = []\<rparr>))"

text \<open>The sum of a distribution's counts, when every count is a number.\<close>

fun counts_sum :: "counter \<Rightarrow> nat option" where
  "counts_sum [] = Some 0"
| "counts_sum ((k, Num n) # ms) = map_option (\<lambda>t. n + t) (counts_sum ms)"
| "counts_sum ((k, Str s) # ms) = None"

subsection \<open>exportToPDF, exportToExcel and exportData (lines 8-21, 112-238, 273-295)\<close>

text \<open>
  The PDF export prints an HTML report in a new window and the Excel export downloads
  CSV sheets. The texts of the report and of the sheets are layout and are not modelled
  (\<open>unit\<close> stands for the text); what is modelled is every guard, every place where building
  them throws, and the result objects. The browser's own calls (\<open>window.open\<close>,
  \<open>document.write\<close>, the download of \<open>downloadFile\<close>) are taken to succeed.

  \<open>generateSummaryHTML\<close> reads \<open>Object.keys(summary.carriers)\<close>: the object that
  \<open>generateSummaryStats\<close> returns when there is no data has no member \<open>carriers\<close>, and
  \<open>Object.keys(undefined)\<close> throws. \<open>generateHTMLReport\<close> computes the summary of whatever
  it is given (anything but an array counts as no data) when \<open>includeSummary\<close> is set.
  \<open>filename.replace('.xlsx', '.csv')\<close> replaces the first occurrence.
\<close>

fun replace_first :: "string \<Rightarrow> string \<Rightarrow> string \<Rightarrow> string" where
  "replace_first [] old new = (if old = [] then new else [])"
| "replace_first (c # cs) old new =
    (if take (length old) (c # cs) = old then new @ drop (length old) (c # cs)
     else c # replace_first cs old new)"

definition generateSummaryHTML :: "summary \<Rightarrow> js_error + unit" where
  "generateSummaryHTML s =
    (case s of
       NoData n m \<Rightarrow> Inl (new_TypeError ''Cannot convert undefined or null to object'')
     | Summary stats \<Rightarrow> Inr ())"

definition generateHTMLReport :: "'o export_input \<Rightarrow> bool \<Rightarrow> js_error + unit" where
  "generateHTMLReport input with_summary =
    (if with_summary
     then generateSummaryHTML
            (case input of
               RecordArray rs \<Rightarrow> generateSummaryStats rs
             | _ \<Rightarrow> NoData 0 ''No data available'')
     else Inr ())"

definition exportToPDF ::
  "string \<Rightarrow> 'o export_input \<Rightarrow> export_options \<Rightarrow> js_error + (export_result \<times> string)" where
  "exportToPDF now input options =
    (let fname = (case opt_filename options of None \<Rightarrow> default_filename now ''.pdf'' | Some f \<Rightarrow> f);
         with_summary = (case includeSummary options of None \<Rightarrow> True | Some b \<Rightarrow> b)
     in case input of
          Missing \<Rightarrow> Inl (new_Error ''No data to export'')
        | _ \<Rightarrow>
          (case generateHTMLReport input with_summary of
             Inl e \<Rightarrow> Inl e
           | Inr htmlContent \<Rightarrow>
               Inr (\<lparr>success = True, filename = fname,
                     recordCount = (case input of RecordArray rs \<Rightarrow> length rs | _ \<Rightarrow> 1)\<rparr>,
                    ''html_print'')))"

definition exportToExcel ::
  "string \<Rightarrow> 'o export_input \<Rightarrow> export_options \<Rightarrow> js_error + (export_result \<times> string)" where
  "exportToExcel now input options =
    (let fname = (case opt_filename options of None \<Rightarrow> default_filename now ''.xlsx'' | Some f \<Rightarrow> f)
     in case input of
          RecordArray (r # rs) \<Rightarrow>
            Inr (\<lparr>success = True, filename = replace_first fname ''.xlsx'' ''.csv'',
                  recordCount = length (r # rs)\<rparr>, ''csv_multi_sheet'')
        | _ \<Rightarrow> Inl (new_Error ''No data to export''))"

datatype exported =
    Csv download export_result
  | Json download export_result
  | Pdf export_result string
  | Excel export_result string

definition exportData ::
  "(bool \<Rightarrow> 'o json_export \<Rightarrow> string) \<Rightarrow> string \<Rightarrow> string \<Rightarrow> 'o export_input \<Rightarrow> export_options
    \<Rightarrow> js_error + exported" where
  "exportData stringify now format input options =
    (let fmt = map toLowerCase format in
     if fmt = ''csv'' then map_sum id (\<lambda>(d, r). Csv d r) (exportToCSV now input options)
     else if fmt = ''json'' then map_sum id (\<lambda>(d, r). Json d r) (exportToJSON stringify now input options)
     else if fmt = ''pdf'' then map_sum id (\<lambda>(r, f). Pdf r f) (exportToPDF now input options)
     else if fmt = ''excel'' then map_sum id (\<lambda>(r, f). Excel r f) (exportToExcel now input options)
     else Inl (new_Error (''Unsupported export format: '' @ format)))"


section \<open>Reading delimited text back\<close>











section \<open>The tracking core\<close>

text \<open>
  The normalizer, validator, enricher, repository and batch importer run in the Python
  backend (\<open>app.py\<close>, \<open>web/api/app.py\<close>), which the client calls over HTTP and which is not
  among the sources. The definitions of this section follow the specification's sections
  3, 4, 6 and 7 instead, and each says so.
\<close>

text \<open>Modelled from the spec: the error taxonomy of section 7 (the backend's errors are missing).\<close>

datatype error_kind = ParseError | InvalidArgument | NotFound | StorageError

text \<open>Modelled from the spec: the line type and PhoneInfo of section 3 (the enricher is missing).\<close>

datatype line_type = Mobile | FixedLine | TollFree | Voip | UnknownType

record phone_info =
  infoCarrier :: string
  infoRegion :: string
  infoTimezone :: "string list"
  phoneType :: line_type

text \<open>
  Modelled from the spec: TrackedRecord of section 3 (the backend's table is missing); the
  four metadata fields are held as one PhoneInfo, time stamps are seconds.
\<close>

record tracked_record =
  phoneNumber :: canonical_number
  info :: phone_info
  dateAdded :: int
  lastTracked :: int
  trackedNotes :: string

text \<open>Modelled from the spec: the Repository's record set of section 4.4 (missing), in storage order.\<close>

type_synonym repository = "tracked_record list"

text \<open>Modelled from the spec: the primary key of a record, its canonical number (section 3).\<close>

definition record_key :: "tracked_record \<Rightarrow> string \<times> string" where
  "record_key r = number_key (phoneNumber r)"

text \<open>Modelled from the spec: the invariant ``at most one record per CanonicalNumber'' of section 3.\<close>

definition repo_ok :: "repository \<Rightarrow> bool" where
  "repo_ok repo = distinct (map record_key repo)"

text \<open>
  Modelled from the spec: the injected dependencies of section 9 (the backend's tables and
  storage are missing). \<open>plan\<close> resolves the stripped text and the default region to a
  country code and a national number with the numbering-plan tables, \<open>describe\<close> is the
  validator followed by the enricher (the metadata is a function of the canonical number),
  \<open>storage_ok\<close> says whether the storage accepts a write for a key.
\<close>

record deps =
  plan :: "string \<Rightarrow> string option \<Rightarrow> (string \<times> string) option"
  describe :: "canonical_number \<Rightarrow> phone_info"
  storage_ok :: "string \<times> string \<Rightarrow> bool"

text \<open>
  Modelled from the spec: the Number Normalizer of section 4.1 (missing). It strips every
  character other than digits and \<open>+\<close>, fails with ParseError when no digit is left or when
  a number without a leading \<open>+\<close> comes without a default region, and otherwise resolves
  the rest with the tables.
\<close>

definition normalize ::
  "(string \<Rightarrow> string option \<Rightarrow> (string \<times> string) option) \<Rightarrow> string \<Rightarrow> string option
    \<Rightarrow> error_kind + canonical_number" where
  "normalize tables raw defaultRegion =
    (let stripped = filter (\<lambda>c. isDigit c \<or> c = CHR ''+'') raw in
     if \<not> list_ex isDigit stripped then Inl ParseError
     else if hd stripped \<noteq> CHR ''+'' \<and> defaultRegion = None then Inl ParseError
     else (case tables stripped defaultRegion of
             None \<Rightarrow> Inl ParseError
           | Some (cc, nn) \<Rightarrow> Inr \<lparr>countryCode = cc, nationalNumber = nn, rawInput = raw\<rparr>))"

text \<open>
  Modelled from the spec: Repository.upsert of section 4.4 (missing): insert when the number
  is unseen, else update \<open>lastTracked\<close>, the notes and the metadata of the stored record;
  returns the repository, the resulting record and whether it was newly created.
\<close>

definition upsert :: "repository \<Rightarrow> tracked_record \<Rightarrow> repository \<times> tracked_record \<times> bool" where
  "upsert repo r =
    (case find (\<lambda>x. record_key x = record_key r) repo of
       None \<Rightarrow> (repo @ [r], r, True)
     | Some old \<Rightarrow>
         (let r' = old\<lparr>lastTracked := lastTracked r, trackedNotes := trackedNotes r, info := info r\<rparr>
          in (map (\<lambda>x. if record_key x = record_key r then r' else x) repo, r', False)))"

text \<open>
  Modelled from the spec: \<open>track\<close> of section 6 (missing): normalizer, validator and
  enricher, then upsert; a ParseError or a storage failure leaves the repository as it was.
\<close>

definition track ::
  "deps \<Rightarrow> int \<Rightarrow> repository \<Rightarrow> string \<Rightarrow> string \<Rightarrow> string option
    \<Rightarrow> error_kind + (repository \<times> tracked_record)" where
  "track env now repo raw notes_text defaultRegion =
    (case normalize (plan env) raw defaultRegion of
       Inl e \<Rightarrow> Inl e
     | Inr n \<Rightarrow>
         if \<not> storage_ok env (number_key n) then Inl StorageError
         else (case upsert repo \<lparr>phoneNumber = n, info = describe env n, dateAdded = now,
                                 lastTracked = now, trackedNotes = notes_text\<rparr> of
                 (repo', r, created) \<Rightarrow> Inr (repo', r)))"

text \<open>
  Modelled from the spec: the result of \<open>list\<close> of sections 4.4 and 6 (missing): the records by
  \<open>dateAdded\<close> descending, filtered case-insensitively across phone number, carrier and
  notes when the search term is not empty, cut into pages counted from 1; a page or page
  size of zero or less is an InvalidArgument.
\<close>

record listing =
  records :: "tracked_record list"
  page :: int
  totalPages :: int

text \<open>Modelled from the spec: the case-insensitive search filter of \<open>list\<close> (section 4.4, missing).\<close>

definition matches_search :: "string \<Rightarrow> tracked_record \<Rightarrow> bool" where
  "matches_search searchTerm r =
    (let wanted = map toLowerCase searchTerm in
     str_includes (map toLowerCase (international (phoneNumber r))) wanted
     \<or> str_includes (map toLowerCase (infoCarrier (info r))) wanted
     \<or> str_includes (map toLowerCase (trackedNotes r)) wanted)"

text \<open>Modelled from the spec: the order of \<open>list\<close>, \<open>dateAdded\<close> descending (section 4.4, missing).\<close>

definition by_date_desc :: "repository \<Rightarrow> repository" where
  "by_date_desc repo = sort_key (\<lambda>r. - dateAdded r) repo"

text \<open>Modelled from the spec: \<open>list(page, pageSize, searchTerm)\<close> itself (sections 4.4 and 6, missing).\<close>

definition list_records :: "repository \<Rightarrow> int \<Rightarrow> int \<Rightarrow> string \<Rightarrow> error_kind + listing" where
  "list_records repo p pageSize searchTerm =
    (if p \<le> 0 \<or> pageSize \<le> 0 then Inl InvalidArgument
     else
       (let found = by_date_desc
              (if searchTerm = [] then repo else filter (matches_search searchTerm) repo)
        in Inr \<lparr>records = take (nat pageSize) (drop (nat ((p - 1) * pageSize)) found),
                page = p,
                totalPages = (int (length found) + pageSize - 1) div pageSize\<rparr>))"

text \<open>
  Modelled from the spec: the result of \<open>importBatch\<close> of sections 4.5 and 6 (missing): the rows, each a
  phone-number text with its notes, are tracked in order; a row that fails is recorded with
  its index, its text and the reason, and the loop goes on.
\<close>

record import_result =
  importedCount :: nat
  errors :: "(nat \<times> string \<times> error_kind) list"

text \<open>Modelled from the spec: the row loop of \<open>importBatch\<close> (section 4.5, missing).\<close>

fun import_loop ::
  "deps \<Rightarrow> int \<Rightarrow> string option \<Rightarrow> nat \<Rightarrow> (string \<times> string) list
    \<Rightarrow> repository \<times> import_result \<Rightarrow> repository \<times> import_result" where
  "import_loop env now defaultRegion i [] acc = acc"
| "import_loop env now defaultRegion i ((raw, notes_text) # rest) (repo, res) =
    (case track env now repo raw notes_text defaultRegion of
       Inl e \<Rightarrow>
         import_loop env now defaultRegion (Suc i) rest
           (repo, res\<lparr>errors := errors res @ [(i, raw, e)]\<rparr>)
     | Inr (repo', r) \<Rightarrow>
         import_loop env now defaultRegion (Suc i) rest
           (repo', res\<lparr>importedCount := Suc (importedCount res)\<rparr>))"

text \<open>Modelled from the spec: \<open>importBatch(rows)\<close> itself (section 6, missing), rows counted from 0.\<close>

definition importBatch ::
  "deps \<Rightarrow> int \<Rightarrow> string option \<Rightarrow> repository \<Rightarrow> (string \<times> string) list
    \<Rightarrow> repository \<times> import_result" where
  "importBatch env now defaultRegion repo batch =
    import_loop env now defaultRegion 0 batch (repo, \<lparr>importedCount = 0, errors = []\<rparr>)"

section \<open>Facts about the pattern matcher\<close>

lemma test_digits: "test (replicate n Digit) s = (length s = n \<and> list_all isDigit s)"
proof (induction n arbitrary: s)
  case 0
  then show ?case by (cases s) auto
next
  case (Suc n)
  then show ?case by (cases s) auto
qed

lemma test_literal: "test (map Lit p @ r) s = (\<exists>t. s = p @ t \<and> test r t)"
proof (induction p arbitrary: s)
  case Nil
  then show ?case by simp
next
  case (Cons a p)
  then show ?case by (cases s) auto
qed

lemma patterns_shape: "list_ex (\<lambda>pattern. test pattern t) patterns = accepted_shape t"
  unfolding patterns_def accepted_shape_def ten_digits_def
  by (simp only: list_ex_Nil_iff list_ex_Cons_iff test_literal test_digits) auto

lemma cleaned_nil: "cleaned [] = []"
  by (simp add: cleaned_def)

lemma not_shape_nil: "\<not> accepted_shape []"
  by (auto simp: accepted_shape_def ten_digits_def)

lemma isValidPhoneFormat_shape: "isValidPhoneFormat s = accepted_shape (cleaned s)"
  by (cases "s = []") (simp_all add: isValidPhoneFormat_def patterns_shape cleaned_nil not_shape_nil)

section \<open>The client-side gate\<close>

text \<open>
  Claim C10. \<open>isValidPhoneFormat\<close> is true exactly when the input, with every character
  other than digits and \<open>+\<close> removed, is \<open>+234\<close> and ten digits, \<open>234\<close> and ten digits,
  \<open>0\<close> and ten digits, or ten digits. \<open>validateNumber\<close> sends the trimmed input to the
  API only in that case and warns otherwise; \<open>+12125551234\<close> is turned away before any
  request is made.
\<close>

theorem isValidPhoneFormat_four_shapes:
  "isValidPhoneFormat s =
     (\<exists>d. length d = 10 \<and> list_all isDigit d \<and>
          (cleaned s = ''+234'' @ d \<or> cleaned s = ''234'' @ d \<or> cleaned s = ''0'' @ d \<or> cleaned s = d))
   \<and> validateNumber v =
     (if trim v = [] then Warned ''Please enter a phone number''
      else if (\<exists>d. length d = 10 \<and> list_all isDigit d \<and>
                (cleaned (trim v) = ''+234'' @ d \<or> cleaned (trim v) = ''234'' @ d
                 \<or> cleaned (trim v) = ''0'' @ d \<or> cleaned (trim v) = d))
      then Requested (trim v)
      else Warned ''Invalid phone number format'')
   \<and> validateNumber ''+12125551234'' = Warned ''Invalid phone number format''"
proof -
  have shape: "isValidPhoneFormat t =
     (\<exists>d. length d = 10 \<and> list_all isDigit d \<and>
          (cleaned t = ''+234'' @ d \<or> cleaned t = ''234'' @ d \<or> cleaned t = ''0'' @ d \<or> cleaned t = d))" for t
    by (simp add: isValidPhoneFormat_shape accepted_shape_def ten_digits_def)
  have gate: "validateNumber v =
     (if trim v = [] then Warned ''Please enter a phone number''
      else if isValidPhoneFormat (trim v) then Requested (trim v)
      else Warned ''Invalid phone number format'')"
    by (simp add: validateNumber_def Let_def)
  have us: "validateNumber ''+12125551234'' = Warned ''Invalid phone number format''"
    by (simp add: validateNumber_def trim_def isSpace_def isValidPhoneFormat_def cleaned_def
        isDigit_def patterns_def test_digits Let_def)
  show ?thesis
    using shape [of s] shape [of "trim v"] gate us by simp
qed

text \<open>The theorem at \<open>0801 234-5678\<close> (accepted, and requested once trimmed) and at \<open>+12125551234\<close>.\<close>

theorem isValidPhoneFormat_four_shapes_witness:
  "isValidPhoneFormat ''0801 234-5678'' \<and> validateNumber '' 0801 234-5678 '' = Requested ''0801 234-5678''
   \<and> \<not> isValidPhoneFormat ''+12125551234''"
proof -
  have c: "cleaned ''0801 234-5678'' = ''0'' @ ''8012345678''"
    by (simp add: cleaned_def isDigit_def)
  have d: "length ''8012345678'' = 10 \<and> list_all isDigit ''8012345678''"
    by (simp add: isDigit_def)
  have t: "trim '' 0801 234-5678 '' = ''0801 234-5678''"
    by (simp add: trim_def isSpace_def)
  have n: "cleaned ''+12125551234'' = ''+12125551234''"
    by (simp add: cleaned_def isDigit_def)
  have e: "\<exists>d. length d = 10 \<and> list_all isDigit d \<and>
          (cleaned ''0801 234-5678'' = ''+234'' @ d \<or> cleaned ''0801 234-5678'' = ''234'' @ d
           \<or> cleaned ''0801 234-5678'' = ''0'' @ d \<or> cleaned ''0801 234-5678'' = d)"
    using c d by blast
  from isValidPhoneFormat_four_shapes [of "''0801 234-5678''" "'' 0801 234-5678 ''"] e t
  have a: "isValidPhoneFormat ''0801 234-5678'' \<and> validateNumber '' 0801 234-5678 '' = Requested ''0801 234-5678''"
    by simp
  from isValidPhoneFormat_four_shapes [of "''+12125551234''" "[]"] n
  have b: "\<not> isValidPhoneFormat ''+12125551234''"
    by auto
  from a b show ?thesis by simp
qed

text \<open>
  Where the gate treats the renderings of a number alike. It reads only the digits and \<open>+\<close>
  of its input, so two inputs that agree on those get the same answer; and for a number
  with country code 234 and a ten-digit national number it accepts every supported
  rendering, with or without spaces and hyphens.
\<close>

lemma isValidPhoneFormat_renderings:
  "(cleaned s = cleaned s' \<longrightarrow> isValidPhoneFormat s = isValidPhoneFormat s')
   \<and> (countryCode n = ''234'' \<and> length (nationalNumber n) = 10 \<and> list_all isDigit (nationalNumber n)
        \<and> r \<in> set (renderings n) \<and> unseparated t = r
      \<longrightarrow> isValidPhoneFormat t)"
proof -
  have same: "cleaned s = cleaned s' \<longrightarrow> isValidPhoneFormat s = isValidPhoneFormat s'"
    by (simp add: isValidPhoneFormat_shape)
  have strip: "cleaned (unseparated u) = cleaned u" for u
    by (induction u) (auto simp: cleaned_def unseparated_def isSeparator_def isDigit_def)
  have digits: "list_all isDigit d \<Longrightarrow> cleaned d = d" for d
    by (induction d) (auto simp: cleaned_def)
  have plus: "cleaned (''+'' @ u) = ''+'' @ cleaned u"
    and zero: "cleaned (''0'' @ u) = ''0'' @ cleaned u"
    and code: "cleaned (''234'' @ u) = ''234'' @ cleaned u" for u
    by (simp_all add: cleaned_def isDigit_def)
  have all: "isValidPhoneFormat t"
    if cc: "countryCode n = ''234''"
      and len: "length (nationalNumber n) = 10"
      and dig: "list_all isDigit (nationalNumber n)"
      and r: "r \<in> set (renderings n)"
      and t: "unseparated t = r"
  proof -
    have ten: "ten_digits (nationalNumber n)"
      using len dig by (simp add: ten_digits_def)
    have "cleaned t = cleaned r"
      using strip [of t] t by simp
    moreover have "cleaned r = ''+234'' @ nationalNumber n
        \<or> cleaned r = ''0'' @ nationalNumber n \<or> cleaned r = nationalNumber n"
      using r cc digits [OF dig] plus [of "''234'' @ nationalNumber n"] code [of "nationalNumber n"]
        zero [of "nationalNumber n"]
      by (auto simp: renderings_def international_def local_with_zero_def local_without_zero_def)
    ultimately have "accepted_shape (cleaned t)"
      unfolding accepted_shape_def using ten by metis
    then show ?thesis
      by (simp add: isValidPhoneFormat_shape)
  qed
  from same all show ?thesis by blast
qed

text \<open>
  Claim C6 does not hold of the gate. The README lists \<open>+12125551234\<close> among the supported
  international formats. For that number (country code 1, national number 2125551234) the
  international rendering is rejected, so \<open>validateNumber\<close> warns and makes no request,
  while the local rendering without a leading zero is accepted and sent on: the gate
  accepts some renderings of the number and not others.
\<close>

theorem isValidPhoneFormat_not_format_invariant:
  "international \<lparr>countryCode = ''1'', nationalNumber = ''2125551234'', rawInput = ''+12125551234''\<rparr>
      = ''+12125551234''
   \<and> local_without_zero \<lparr>countryCode = ''1'', nationalNumber = ''2125551234'', rawInput = ''+12125551234''\<rparr>
      = ''2125551234''
   \<and> \<not> isValidPhoneFormat ''+12125551234''
   \<and> isValidPhoneFormat ''2125551234''
   \<and> validateNumber ''+12125551234'' = Warned ''Invalid phone number format''
   \<and> validateNumber ''2125551234'' = Requested ''2125551234''"
  by (simp add: international_def local_without_zero_def validateNumber_def trim_def isSpace_def
      isValidPhoneFormat_def cleaned_def isDigit_def patterns_def test_digits Let_def)

section \<open>Errors surfaced by the client\<close>

lemma http_error_nonempty: "http_error code \<noteq> []"
  by (simp add: http_error_def)

















section \<open>What an export holds\<close>

lemma formatCSVHeader_defaults:
  "map formatCSVHeader defaultFields =
     [''Phone Number'', ''Carrier'', ''Region'', ''Timezone'', ''Phone Type'', ''Date Added'',
      ''Last Tracked'', ''Notes'']"
  by (simp add: defaultFields_def formatCSVHeader_def isWord_def isDigit_def toUpperCase_def
      lower_case_def upper_case_def)

lemma header_defaults:
  "join (map formatCSVHeader defaultFields) '','' =
     ''Phone Number,Carrier,Region,Timezone,Phone Type,Date Added,Last Tracked,Notes''"
  by (simp add: formatCSVHeader_defaults)

text \<open>
  Claim C5, as the code has it. With the default options, \<open>exportToJSON\<close> returns for every
  array of records, the empty one included, a document with the timestamp (\<open>export_date\<close>),
  the version \<open>2.0.0\<close>, the record count (\<open>metadata.total_records\<close>) and the records under
  \<open>data\<close>. \<open>exportToCSV\<close> fails on an array of zero records, whatever the options; on any
  other it writes the header line and one line per record, and nothing else.
\<close>

theorem export_envelope:
  "exportToJSON stringify now (RecordArray rs :: 'o export_input) no_options =
      Inr (\<lparr>content = stringify True
                 \<lparr>export_date = now, version = ''2.0.0'',
                  application = ''Nigeria Phone Tracker - Professional Edition'',
                  metadata = Some \<lparr>total_records = length rs, export_format = ''json'',
                                    generated_by = ''Nigeria Phone Tracker''\<rparr>,
                  data = RecordArray rs\<rparr>,
             saved_as = ''nigeria_phone_tracker_'' @ date_part now @ ''.json'',
             mimeType = ''application/json''\<rparr>,
           \<lparr>success = True, filename = ''nigeria_phone_tracker_'' @ date_part now @ ''.json'',
             recordCount = length rs\<rparr>)
   \<and> exportToCSV now (RecordArray [] :: 'o export_input) options = Inl \<lparr>name = ''Error'', message = ''No data to export''\<rparr>
   \<and> (rs \<noteq> [] \<longrightarrow>
        exportToCSV now (RecordArray rs :: 'o export_input) no_options =
          Inr (\<lparr>content = ''Phone Number,Carrier,Region,Timezone,Phone Type,Date Added,Last Tracked,Notes'' @ [CHR 0x0A]
                   @ concat (map (\<lambda>row. csv_row defaultFields '','' row @ [CHR 0x0A]) rs),
                 saved_as = ''nigeria_phone_tracker_'' @ date_part now @ ''.csv'',
                 mimeType = ''text/csv''\<rparr>,
               \<lparr>success = True, filename = ''nigeria_phone_tracker_'' @ date_part now @ ''.csv'',
                 recordCount = length rs\<rparr>))"
proof -
  have j: "exportToJSON stringify now (RecordArray rs) no_options =
      Inr (\<lparr>content = stringify True
                 \<lparr>export_date = now, version = ''2.0.0'',
                  application = ''Nigeria Phone Tracker - Professional Edition'',
                  metadata = Some \<lparr>total_records = length rs, export_format = ''json'',
                                    generated_by = ''Nigeria Phone Tracker''\<rparr>,
                  data = RecordArray rs\<rparr>,
             saved_as = ''nigeria_phone_tracker_'' @ date_part now @ ''.json'',
             mimeType = ''application/json''\<rparr>,
           \<lparr>success = True, filename = ''nigeria_phone_tracker_'' @ date_part now @ ''.json'',
             recordCount = length rs\<rparr>)"
    by (simp add: exportToJSON_def no_options_def default_filename_def Let_def)
  have e: "exportToCSV now (RecordArray [] :: 'o export_input) options = Inl \<lparr>name = ''Error'', message = ''No data to export''\<rparr>"
    by (simp add: exportToCSV_def new_Error_def Let_def)
  have c: "exportToCSV now (RecordArray rs :: 'o export_input) no_options =
          Inr (\<lparr>content = ''Phone Number,Carrier,Region,Timezone,Phone Type,Date Added,Last Tracked,Notes'' @ [CHR 0x0A]
                   @ concat (map (\<lambda>row. csv_row defaultFields '','' row @ [CHR 0x0A]) rs),
                 saved_as = ''nigeria_phone_tracker_'' @ date_part now @ ''.csv'',
                 mimeType = ''text/csv''\<rparr>,
               \<lparr>success = True, filename = ''nigeria_phone_tracker_'' @ date_part now @ ''.csv'',
                 recordCount = length rs\<rparr>)" if "rs \<noteq> []"
  proof -
    from that obtain r rs' where rs: "rs = r # rs'" by (cases rs) auto
    show ?thesis
      unfolding rs
      by (simp add: exportToCSV_def no_options_def default_filename_def header_defaults Let_def)
  qed
  from j e c show ?thesis by blast
qed

text \<open>The theorem at one record (so the CSV branch applies), with every text written out.\<close>

theorem export_envelope_witness:
  "exportToCSV ''2024-01-15T10:30:00.000Z''
      (RecordArray [\<lparr>phone_number = Some ''+2348012345678'', carrier = Some ''MTN'', region = None,
         timezone = None, phone_type = Some ''Mobile'', date_added = None, last_tracked = None,
         notes = Some ''Business contact'', is_valid = True\<rparr>] :: unit export_input) no_options =
     Inr (\<lparr>content = ''Phone Number,Carrier,Region,Timezone,Phone Type,Date Added,Last Tracked,Notes''
              @ [CHR 0x0A] @ ''+2348012345678,MTN,,,Mobile,,,Business contact'' @ [CHR 0x0A],
            saved_as = ''nigeria_phone_tracker_2024-01-15.csv'', mimeType = ''text/csv''\<rparr>,
          \<lparr>success = True, filename = ''nigeria_phone_tracker_2024-01-15.csv'', recordCount = 1\<rparr>)"
proof -
  let ?row = "\<lparr>phone_number = Some ''+2348012345678'', carrier = Some ''MTN'', region = None,
         timezone = None, phone_type = Some ''Mobile'', date_added = None, last_tracked = None,
         notes = Some ''Business contact'', is_valid = True\<rparr>"
  have ne: "[?row] \<noteq> []" by simp
  have d: "date_part ''2024-01-15T10:30:00.000Z'' = ''2024-01-15''"
    by (simp add: date_part_def)
  have r: "csv_row defaultFields '','' ?row = ''+2348012345678,MTN,,,Mobile,,,Business contact''"
    by (simp add: csv_row_def defaultFields_def cell_def or_empty_def formatCSVValue_def)
  from export_envelope
      [of "\<lambda>pretty (doc :: unit json_export). []" "''2024-01-15T10:30:00.000Z''" "[?row]" no_options]
    ne d r
  show ?thesis by simp
qed

text \<open>
  Claim C5 as stated fails: asked for the csv format with zero records, the export fails.
\<close>

theorem export_of_nothing_fails:
  "exportData (\<lambda>pretty doc. []) ''2024-01-15T10:30:00.000Z'' ''csv'' (RecordArray [] :: unit export_input)
      no_options
     = Inl \<lparr>name = ''Error'', message = ''No data to export''\<rparr>"
  by (simp add: exportData_def exportToCSV_def new_Error_def toLowerCase_def upper_case_def
      lower_case_def Let_def)

section \<open>Summary statistics\<close>

lemma fold_count_item_counts:
  "stats_total_records (fold count_item rows s) = stats_total_records s
   \<and> valid_numbers (fold count_item rows s) = valid_numbers s
   \<and> invalid_numbers (fold count_item rows s) = invalid_numbers s"
  by (induction rows arbitrary: s) (simp_all add: count_item_def)

lemma fold_count_item_carriers:
  "carriers (fold count_item rows s)
     = fold (\<lambda>item obj. tally obj (or_Unknown (carrier item))) rows (carriers s)"
  by (induction rows arbitrary: s) (simp_all add: count_item_def)

lemma fold_count_item_phone_types:
  "phone_types (fold count_item rows s)
     = fold (\<lambda>item obj. tally obj (or_Unknown (phone_type item))) rows (phone_types s)"
  by (induction rows arbitrary: s) (simp_all add: count_item_def)

lemma fold_count_item_regions:
  "regions (fold count_item rows s)
     = fold (\<lambda>item obj. tally obj (or_Unknown (region item))) rows (regions s)"
  by (induction rows arbitrary: s) (simp_all add: count_item_def)

lemma inherited_proto: "inherited k = None \<Longrightarrow> k \<noteq> ''__proto__''"
  by (auto simp: inherited_def object_prototype_def native_def)

lemma get_member_own: "inherited k = None \<Longrightarrow> get_member obj k = map_of obj k"
  by (simp add: get_member_def split: option.splits)

lemma counts_sum_set_member:
  "counts_sum obj = Some t \<Longrightarrow> counts_sum (set_member obj k (plus_one (map_of obj k))) = Some (Suc t)"
proof (induction obj arbitrary: t)
  case Nil
  then show ?case by (simp add: plus_one_def)
next
  case (Cons p obj)
  obtain k' v' where p: "p = (k', v')" by (cases p)
  from Cons.prems p obtain n where v: "v' = Num n" by (cases v') auto
  from Cons.prems p v obtain t' where t': "counts_sum obj = Some t'" "t = n + t'" by auto
  show ?case
  proof (cases "k' = k")
    case True
    then show ?thesis using p v t' by (simp add: plus_one_def)
  next
    case False
    then show ?thesis using p v t' Cons.IH [OF t'(1)] by simp
  qed
qed

lemma counts_sum_tally:
  "inherited k = None \<Longrightarrow> counts_sum obj = Some t \<Longrightarrow> counts_sum (tally obj k) = Some (Suc t)"
  using inherited_proto [of k]
  by (simp add: tally_def get_member_own counts_sum_set_member)

lemma counts_sum_fold:
  "\<forall>item \<in> set rows. inherited (key item) = None \<Longrightarrow> counts_sum obj = Some t
    \<Longrightarrow> counts_sum (fold (\<lambda>item obj. tally obj (key item)) rows obj) = Some (t + length rows)"
proof (induction rows arbitrary: obj t)
  case Nil
  then show ?case by simp
next
  case (Cons r rows)
  from Cons.prems have "counts_sum (tally obj (key r)) = Some (Suc t)"
    by (simp add: counts_sum_tally)
  from Cons.IH [OF _ this] Cons.prems(1) show ?case by simp
qed

lemma map_of_set_member:
  "map_of (set_member obj k v) k' = (if k' = k then Some v else map_of obj k')"
  by (induction obj) auto

lemma map_of_tally:
  "inherited k = None \<Longrightarrow> map_of (tally obj k) k' =
     (if k' = k then Some (plus_one (map_of obj k)) else map_of obj k')"
  using inherited_proto [of k]
  by (simp add: tally_def get_member_own map_of_set_member)

lemma map_of_fold_tally_Some:
  "\<forall>item \<in> set rows. inherited (key item) = None \<Longrightarrow> map_of obj k = Some (Num n) \<Longrightarrow>
   map_of (fold (\<lambda>item obj. tally obj (key item)) rows obj) k
     = Some (Num (n + length (filter (\<lambda>item. key item = k) rows)))"
proof (induction rows arbitrary: obj n)
  case Nil
  then show ?case by simp
next
  case (Cons r rows)
  show ?case
  proof (cases "key r = k")
    case True
    with Cons.prems have "map_of (tally obj (key r)) k = Some (Num (Suc n))"
      by (simp add: map_of_tally plus_one_def)
    from Cons.IH [OF _ this] Cons.prems(1) True show ?thesis by simp
  next
    case False
    with Cons.prems have "map_of (tally obj (key r)) k = Some (Num n)"
      by (simp add: map_of_tally)
    from Cons.IH [OF _ this] Cons.prems(1) False show ?thesis by simp
  qed
qed

lemma map_of_fold_tally_None:
  "\<forall>item \<in> set rows. inherited (key item) = None \<Longrightarrow> map_of obj k = None \<Longrightarrow>
   map_of (fold (\<lambda>item obj. tally obj (key item)) rows obj) k
     = (if length (filter (\<lambda>item. key item = k) rows) = 0 then None
        else Some (Num (length (filter (\<lambda>item. key item = k) rows))))"
proof (induction rows arbitrary: obj)
  case Nil
  then show ?case by simp
next
  case (Cons r rows)
  show ?case
  proof (cases "key r = k")
    case True
    with Cons.prems have "map_of (tally obj (key r)) k = Some (Num 1)"
      by (simp add: map_of_tally plus_one_def)
    from map_of_fold_tally_Some [OF _ this, of rows] Cons.prems(1) True show ?thesis by simp
  next
    case False
    with Cons.prems have "map_of (tally obj (key r)) k = None"
      by (simp add: map_of_tally)
    from Cons.IH [OF _ this] Cons.prems(1) False show ?thesis by simp
  qed
qed

lemma or_Unknown_bucket: "(or_Unknown v = ''Unknown'') = (v \<in> {None, Some [], Some ''Unknown''})"
  by (cases v) (auto simp: or_Unknown_def)

text \<open>
  Claim C9, as the code has it. For an array of at least one record, none of whose carrier,
  phone type or region is the name of a member of \<open>Object.prototype\<close>, the valid and invalid
  counts add up to \<open>total_records\<close>, which is the array's length; the counts of each of the
  three distributions add up to it too; and the \<open>Unknown\<close> bucket of each counts the records
  whose field is missing, empty or the text \<open>Unknown\<close> itself.
\<close>

theorem summary_counts_partition:
  assumes "rows \<noteq> []"
    and "\<forall>item \<in> set rows. inherited (or_Unknown (carrier item)) = None
            \<and> inherited (or_Unknown (phone_type item)) = None
            \<and> inherited (or_Unknown (region item)) = None"
  shows "\<exists>s. generateSummaryStats rows = Summary s
     \<and> valid_numbers s + invalid_numbers s = stats_total_records s
     \<and> stats_total_records s = length rows
     \<and> counts_sum (carriers s) = Some (length rows)
     \<and> counts_sum (phone_types s) = Some (length rows)
     \<and> counts_sum (regions s) = Some (length rows)
     \<and> map_of (carriers s) ''Unknown'' =
         (if length (filter (\<lambda>item. carrier item \<in> {None, Some [], Some ''Unknown''}) rows) = 0 then None
          else Some (Num (length (filter (\<lambda>item. carrier item \<in> {None, Some [], Some ''Unknown''}) rows))))
     \<and> map_of (phone_types s) ''Unknown'' =
         (if length (filter (\<lambda>item. phone_type item \<in> {None, Some [], Some ''Unknown''}) rows) = 0 then None
          else Some (Num (length (filter (\<lambda>item. phone_type item \<in> {None, Some [], Some ''Unknown''}) rows))))
     \<and> map_of (regions s) ''Unknown'' =
         (if length (filter (\<lambda>item. region item \<in> {None, Some [], Some ''Unknown''}) rows) = 0 then None
          else Some (Num (length (filter (\<lambda>item. region item \<in> {None, Some [], Some ''Unknown''}) rows))))"
proof -
  let ?init = "\<lparr>stats_total_records = length rows,
             valid_numbers = length (filter is_valid rows),
             invalid_numbers = length (filter (\<lambda>item. \<not> is_valid item) rows),
             carriers = [], phone_types = [], regions = []\<rparr>"
  let ?s = "fold count_item rows ?init"
  have s: "generateSummaryStats rows = Summary ?s"
    using assms(1) by (simp add: generateSummaryStats_def)
  have t: "stats_total_records ?s = length rows"
    by (simp add: fold_count_item_counts)
  have v: "valid_numbers ?s + invalid_numbers ?s = stats_total_records ?s"
    by (simp add: fold_count_item_counts sum_length_filter_compl)
  have kc: "\<forall>item \<in> set rows. inherited (or_Unknown (carrier item)) = None"
    and kt: "\<forall>item \<in> set rows. inherited (or_Unknown (phone_type item)) = None"
    and kr: "\<forall>item \<in> set rows. inherited (or_Unknown (region item)) = None"
    using assms(2) by auto
  have c: "counts_sum (carriers ?s) = Some (length rows)"
    using counts_sum_fold [OF kc, of "[]" 0] by (simp add: fold_count_item_carriers)
  have p: "counts_sum (phone_types ?s) = Some (length rows)"
    using counts_sum_fold [OF kt, of "[]" 0] by (simp add: fold_count_item_phone_types)
  have r: "counts_sum (regions ?s) = Some (length rows)"
    using counts_sum_fold [OF kr, of "[]" 0] by (simp add: fold_count_item_regions)
  have uc: "map_of (carriers ?s) ''Unknown'' =
         (if length (filter (\<lambda>item. carrier item \<in> {None, Some [], Some ''Unknown''}) rows) = 0 then None
          else Some (Num (length (filter (\<lambda>item. carrier item \<in> {None, Some [], Some ''Unknown''}) rows))))"
    using map_of_fold_tally_None [OF kc, of "[]" "''Unknown''"]
    by (simp add: fold_count_item_carriers or_Unknown_bucket)
  have up: "map_of (phone_types ?s) ''Unknown'' =
         (if length (filter (\<lambda>item. phone_type item \<in> {None, Some [], Some ''Unknown''}) rows) = 0 then None
          else Some (Num (length (filter (\<lambda>item. phone_type item \<in> {None, Some [], Some ''Unknown''}) rows))))"
    using map_of_fold_tally_None [OF kt, of "[]" "''Unknown''"]
    by (simp add: fold_count_item_phone_types or_Unknown_bucket)
  have ur: "map_of (regions ?s) ''Unknown'' =
         (if length (filter (\<lambda>item. region item \<in> {None, Some [], Some ''Unknown''}) rows) = 0 then None
          else Some (Num (length (filter (\<lambda>item. region item \<in> {None, Some [], Some ''Unknown''}) rows))))"
    using map_of_fold_tally_None [OF kr, of "[]" "''Unknown''"]
    by (simp add: fold_count_item_regions or_Unknown_bucket)
  from s t v c p r uc up ur show ?thesis by blast
qed

text \<open>The theorem at two records, one of them without carrier and region.\<close>

theorem summary_counts_partition_witness:
  "\<exists>s. generateSummaryStats
            [\<lparr>phone_number = Some ''+2348012345678'', carrier = Some ''MTN'', region = None,
              timezone = None, phone_type = Some ''Mobile'', date_added = None, last_tracked = None,
              notes = None, is_valid = True\<rparr>,
             \<lparr>phone_number = Some ''12345'', carrier = None, region = Some [],
              timezone = None, phone_type = Some ''Unknown'', date_added = None, last_tracked = None,
              notes = None, is_valid = False\<rparr>] = Summary s
        \<and> valid_numbers s + invalid_numbers s = 2
        \<and> counts_sum (carriers s) = Some 2 \<and> counts_sum (phone_types s) = Some 2
        \<and> counts_sum (regions s) = Some 2
        \<and> map_of (carriers s) ''Unknown'' = Some (Num 1)
        \<and> map_of (phone_types s) ''Unknown'' = Some (Num 1)
        \<and> map_of (regions s) ''Unknown'' = Some (Num 2)"
proof -
  let ?rows = "[\<lparr>phone_number = Some ''+2348012345678'', carrier = Some ''MTN'', region = None,
              timezone = None, phone_type = Some ''Mobile'', date_added = None, last_tracked = None,
              notes = None, is_valid = True\<rparr>,
             \<lparr>phone_number = Some ''12345'', carrier = None, region = Some [],
              timezone = None, phone_type = Some ''Unknown'', date_added = None, last_tracked = None,
              notes = None, is_valid = False\<rparr>]"
  have ne: "?rows \<noteq> []" by simp
  have own: "\<forall>item \<in> set ?rows. inherited (or_Unknown (carrier item)) = None
            \<and> inherited (or_Unknown (phone_type item)) = None
            \<and> inherited (or_Unknown (region item)) = None"
    by (simp add: inherited_def object_prototype_def native_def or_Unknown_def)
  from summary_counts_partition [OF ne own]
  show ?thesis by (auto simp: numeral_2_eq_2)
qed

text \<open>
  Claim C9 as stated fails: for the empty array the summary is \<open>{ total: 0, message }\<close> and has
  none of the counts; and a carrier named \<open>constructor\<close> makes its count a text, so the
  carrier counts have no sum.
\<close>

theorem summary_of_nothing_has_no_counts:
  "generateSummaryStats [] = NoData 0 ''No data available''
   \<and> generateSummaryStats
        [\<lparr>phone_number = Some ''+2348012345678'', carrier = Some ''constructor'', region = None,
          timezone = None, phone_type = Some ''Mobile'', date_added = None, last_tracked = None,
          notes = None, is_valid = True\<rparr>]
      = Summary \<lparr>stats_total_records = 1, valid_numbers = 1, invalid_numbers = 0,
          carriers = [(''constructor'', Str ''function Object() { [native code] }1'')],
          phone_types = [(''Mobile'', Num 1)],
          regions = [(''Unknown'', Num 1)]\<rparr>
   \<and> counts_sum [(''constructor'', Str ''function Object() { [native code] }1'')] = None"
  by (simp add: generateSummaryStats_def count_item_def tally_def get_member_def plus_one_def
      or_Unknown_def inherited_def object_prototype_def native_def)

section \<open>The tracking core: one record per number, import, pages\<close>

lemma other_key: "k \<notin> set (map f xs) \<Longrightarrow> y \<in> set xs \<Longrightarrow> f y \<noteq> k"
  by (induction xs) auto

lemma key_present: "y \<in> set xs \<Longrightarrow> f y = k \<Longrightarrow> k \<in> set (map f xs)"
  by auto

lemma filter_key_single:
  "distinct (map f xs) \<Longrightarrow> x \<in> set xs \<Longrightarrow> filter (\<lambda>y. f y = f x) xs = [x]"
proof (induction xs)
  case Nil
  then show ?case by simp
next
  case (Cons a xs)
  show ?case
  proof (cases "a = x")
    case True
    have "f x \<notin> set (map f xs)"
      using Cons.prems(1) True by simp
    then have "filter (\<lambda>y. f y = f x) xs = []"
      unfolding filter_empty_conv using other_key [of "f x" f xs] by blast
    then show ?thesis using True by simp
  next
    case False
    with Cons.prems have "x \<in> set xs" by simp
    moreover from this Cons.prems(1) have "f a \<noteq> f x"
      using other_key [of "f a" f xs x] by auto
    ultimately show ?thesis using Cons by simp
  qed
qed

lemma find_key_unique:
  "distinct (map f xs) \<Longrightarrow> x \<in> set xs \<Longrightarrow> find (\<lambda>y. f y = f x) xs = Some x"
proof (induction xs)
  case Nil
  then show ?case by simp
next
  case (Cons a xs)
  then show ?case by (cases "a = x") auto
qed

lemma upsert_new:
  assumes "record_key r \<notin> set (map record_key repo)"
  shows "upsert repo r = (repo @ [r], r, True)"
proof -
  have "find (\<lambda>x. record_key x = record_key r) repo = None"
    unfolding find_None_iff using other_key [OF assms] by blast
  then show ?thesis by (simp add: upsert_def)
qed

lemma upsert_old:
  assumes "repo_ok repo" and "old \<in> set repo" and "record_key old = record_key r"
  shows "upsert repo r =
     (map (\<lambda>x. if record_key x = record_key r
                then old\<lparr>lastTracked := lastTracked r, trackedNotes := trackedNotes r, info := info r\<rparr>
                else x) repo,
      old\<lparr>lastTracked := lastTracked r, trackedNotes := trackedNotes r, info := info r\<rparr>, False)"
proof -
  have "find (\<lambda>x. record_key x = record_key old) repo = Some old"
    using assms(1,2) unfolding repo_ok_def by (rule find_key_unique)
  then show ?thesis using assms(3) by (simp add: upsert_def Let_def)
qed

lemma record_key_update [simp]:
  "record_key (old\<lparr>lastTracked := a, trackedNotes := b, info := c\<rparr>) = record_key old"
  by (simp add: record_key_def)

lemma upsert_facts:
  assumes "repo_ok repo" and "upsert repo r = (repo', r', created)"
  shows "repo_ok repo' \<and> r' \<in> set repo' \<and> record_key r' = record_key r
     \<and> trackedNotes r' = trackedNotes r \<and> lastTracked r' = lastTracked r
     \<and> (\<forall>old \<in> set repo. record_key old = record_key r \<longrightarrow>
            dateAdded r' = dateAdded old \<and> length repo' = length repo)"
proof (cases "record_key r \<in> set (map record_key repo)")
  case False
  from upsert_new [OF False] assms(2) have "repo' = repo @ [r]" "r' = r" by simp_all
  then show ?thesis using assms(1) False other_key [OF False] by (auto simp: repo_ok_def)
next
  case True
  then obtain old where old: "old \<in> set repo" "record_key old = record_key r" by auto
  let ?new = "old\<lparr>lastTracked := lastTracked r, trackedNotes := trackedNotes r, info := info r\<rparr>"
  from upsert_old [OF assms(1) old] assms(2)
  have eq: "repo' = map (\<lambda>x. if record_key x = record_key r then ?new else x) repo" "r' = ?new"
    by simp_all
  have keys: "map record_key repo' = map record_key repo"
    unfolding eq by (induction repo) (auto simp: old(2))
  have mem: "r' \<in> set repo'"
    unfolding eq using old by (auto simp: image_iff)
  have inj: "inj_on record_key (set repo)"
    using assms(1) by (simp add: repo_ok_def distinct_map)
  have unique: "o' = old" if "o' \<in> set repo" "record_key o' = record_key r" for o'
    using inj_onD [OF inj, of o' old] that old by simp
  have a: "repo_ok repo'"
    using assms(1) by (simp add: repo_ok_def keys)
  have b: "record_key r' = record_key r \<and> trackedNotes r' = trackedNotes r \<and> lastTracked r' = lastTracked r"
    by (simp add: eq(2) old(2))
  have c: "dateAdded r' = dateAdded old \<and> length repo' = length repo"
    by (simp add: eq)
  have d: "\<forall>o' \<in> set repo. record_key o' = record_key r \<longrightarrow>
            dateAdded r' = dateAdded o' \<and> length repo' = length repo"
    using unique c by blast
  from a mem b d show ?thesis by blast
qed

lemma track_ok:
  assumes "normalize (plan env) raw reg = Inr n" and "storage_ok env (number_key n)"
    and "upsert repo \<lparr>phoneNumber = n, info = describe env n, dateAdded = now,
           lastTracked = now, trackedNotes = notes_text\<rparr> = (repo', r, created)"
  shows "track env now repo raw notes_text reg = Inr (repo', r)"
  using assms by (simp add: track_def)

text \<open>
  Claim C1. From a repository that holds at most one record per number, tracking a text that
  normalizes to the number \<open>n\<close> with notes \<open>notes1\<close> and then any text that normalizes to the
  same \<open>n\<close> with notes \<open>notes2\<close> succeeds twice (the storage accepting writes for \<open>n\<close>) and
  leaves exactly one record for \<open>n\<close>: its notes are \<open>notes2\<close>, its \<open>dateAdded\<close> is the one it had
  after the first call, and the second call added no record.
\<close>

theorem track_twice_one_record:
  assumes "repo_ok repo"
    and "normalize (plan env) raw1 region1 = Inr n1"
    and "normalize (plan env) raw2 region2 = Inr n2"
    and "number_key n1 = number_key n2"
    and "storage_ok env (number_key n1)"
  shows "\<exists>repo1 r1 repo2 r2.
      track env t1 repo raw1 notes1 region1 = Inr (repo1, r1)
    \<and> track env t2 repo1 raw2 notes2 region2 = Inr (repo2, r2)
    \<and> filter (\<lambda>x. record_key x = number_key n1) repo2 = [r2]
    \<and> trackedNotes r2 = notes2
    \<and> dateAdded r2 = dateAdded r1
    \<and> lastTracked r2 = t2
    \<and> length repo2 = length repo1
    \<and> repo_ok repo2"
proof -
  let ?rec1 = "\<lparr>phoneNumber = n1, info = describe env n1, dateAdded = t1,
           lastTracked = t1, trackedNotes = notes1\<rparr>"
  let ?rec2 = "\<lparr>phoneNumber = n2, info = describe env n2, dateAdded = t2,
           lastTracked = t2, trackedNotes = notes2\<rparr>"
  obtain repo1 r1 c1 where u1: "upsert repo ?rec1 = (repo1, r1, c1)"
    by (cases "upsert repo ?rec1") auto
  obtain repo2 r2 c2 where u2: "upsert repo1 ?rec2 = (repo2, r2, c2)"
    by (cases "upsert repo1 ?rec2") auto
  have k1: "record_key ?rec1 = number_key n1" and k2: "record_key ?rec2 = number_key n1"
    using assms(4) by (simp_all add: record_key_def)
  from upsert_facts [OF assms(1) u1]
  have ok1: "repo_ok repo1" and in1: "r1 \<in> set repo1" and key1: "record_key r1 = number_key n1"
    using k1 by simp_all
  from upsert_facts [OF ok1 u2]
  have ok2: "repo_ok repo2" and in2: "r2 \<in> set repo2" and key2: "record_key r2 = number_key n1"
    and notes2: "trackedNotes r2 = notes2" and last2: "lastTracked r2 = t2"
    and old: "\<forall>old \<in> set repo1. record_key old = number_key n1 \<longrightarrow>
            dateAdded r2 = dateAdded old \<and> length repo2 = length repo1"
    using k2 by simp_all
  from old in1 key1 have kept: "dateAdded r2 = dateAdded r1" and len: "length repo2 = length repo1"
    by blast+
  have one: "filter (\<lambda>x. record_key x = number_key n1) repo2 = [r2]"
    using filter_key_single [of record_key repo2 r2] ok2 in2 key2 by (simp add: repo_ok_def)
  have first: "track env t1 repo raw1 notes1 region1 = Inr (repo1, r1)"
    using assms(2,5) u1 by (rule track_ok)
  have second: "track env t2 repo1 raw2 notes2 region2 = Inr (repo2, r2)"
    using assms(3) assms(5) [unfolded assms(4)] u2 by (rule track_ok)
  from first second one notes2 kept last2 len ok2 show ?thesis by blast
qed

lemma track_result:
  "track env now repo raw notes_text reg =
     (case normalize (plan env) raw reg of
        Inl e \<Rightarrow> Inl e
      | Inr n \<Rightarrow>
          if storage_ok env (number_key n)
          then Inr (fst (upsert repo \<lparr>phoneNumber = n, info = describe env n, dateAdded = now,
                           lastTracked = now, trackedNotes = notes_text\<rparr>),
                    fst (snd (upsert repo \<lparr>phoneNumber = n, info = describe env n, dateAdded = now,
                           lastTracked = now, trackedNotes = notes_text\<rparr>)))
          else Inl StorageError)"
  by (simp add: track_def split: sum.splits prod.splits)

lemma track_fails_alike:
  "(track env now repo raw notes_text reg = Inl e) = (track env now [] raw notes_text reg = Inl e)"
  by (simp add: track_result split: sum.splits)

lemma track_isl_alike:
  "isl (track env now repo raw notes_text reg) = isl (track env now [] raw notes_text reg)"
  by (simp add: track_result split: sum.splits)

lemma upsert_keys:
  "set (map record_key (fst (upsert repo r))) = insert (record_key r) (set (map record_key repo))"
proof (cases "find (\<lambda>x. record_key x = record_key r) repo")
  case None
  then show ?thesis by (simp add: upsert_def)
next
  case (Some old)
  then have old: "old \<in> set repo" "record_key old = record_key r"
    by (auto simp: find_Some_iff)
  let ?new = "old\<lparr>lastTracked := lastTracked r, trackedNotes := trackedNotes r, info := info r\<rparr>"
  have "map record_key (map (\<lambda>x. if record_key x = record_key r then ?new else x) repo)
      = map record_key repo"
    by (induction repo) (auto simp: old(2))
  moreover have "record_key r \<in> set (map record_key repo)"
    using old by (rule key_present)
  ultimately show ?thesis
    using Some by (auto simp: upsert_def Let_def)
qed

lemma import_loop_result:
  "import_loop env now reg i batch (repo, res) = (repo', res') \<Longrightarrow>
   errors res' = errors res @
       concat (map (\<lambda>(j, raw, notes_text).
                 case track env now [] raw notes_text reg of
                   Inl e \<Rightarrow> [(j, raw, e)] | Inr _ \<Rightarrow> []) (enumerate i batch))
   \<and> importedCount res' = importedCount res +
       length (filter (\<lambda>(raw, notes_text). \<not> isl (track env now [] raw notes_text reg)) batch)
   \<and> set (map record_key repo') = set (map record_key repo) \<union>
       {number_key n | n raw notes_text. (raw, notes_text) \<in> set batch
          \<and> normalize (plan env) raw reg = Inr n \<and> storage_ok env (number_key n)}"
proof (induction batch arbitrary: i repo res)
  case Nil
  then show ?case by simp
next
  case (Cons row batch)
  obtain raw notes_text where row: "row = (raw, notes_text)" by (cases row)
  show ?case
  proof (cases "track env now repo raw notes_text reg")
    case (Inl e)
    then have empty: "track env now [] raw notes_text reg = Inl e"
      by (simp add: track_fails_alike [of env now repo])
    from Inl have nokey: "\<not> (\<exists>n. normalize (plan env) raw reg = Inr n \<and> storage_ok env (number_key n))"
      by (auto simp: track_result)
    from Cons.prems Inl row
    have "import_loop env now reg (Suc i) batch (repo, res\<lparr>errors := errors res @ [(i, raw, e)]\<rparr>)
        = (repo', res')"
      by simp
    from Cons.IH [OF this] show ?thesis
      using empty row nokey by auto
  next
    case (Inr ok)
    obtain repo1 r where ok: "ok = (repo1, r)" by (cases ok)
    from Inr have empty: "\<not> isl (track env now [] raw notes_text reg)"
      using track_isl_alike [of env now repo raw notes_text reg] by simp
    from Inr ok obtain n where n: "normalize (plan env) raw reg = Inr n" "storage_ok env (number_key n)"
      and repo1: "repo1 = fst (upsert repo \<lparr>phoneNumber = n, info = describe env n, dateAdded = now,
                           lastTracked = now, trackedNotes = notes_text\<rparr>)"
      by (auto simp: track_result split: sum.splits if_splits)
    have keys1: "set (map record_key repo1) = insert (number_key n) (set (map record_key repo))"
      unfolding repo1 upsert_keys by (simp add: record_key_def)
    from Cons.prems Inr ok row
    have "import_loop env now reg (Suc i) batch (repo1, res\<lparr>importedCount := Suc (importedCount res)\<rparr>)
        = (repo', res')"
      by simp
    from Cons.IH [OF this] show ?thesis
      using empty row n keys1 by (auto split: sum.splits)
  qed
qed



lemma verdict_counts:
  "length (concat (map (\<lambda>(j, raw, notes_text).
             case normalize tables raw reg of
               Inl e \<Rightarrow> [(j, raw, e)]
             | Inr n \<Rightarrow> if accepts (number_key n) then [] else [(j, raw, StorageError)])
           (enumerate i batch)))
   + length (filter (\<lambda>(raw, notes_text).
             case normalize tables raw reg of
               Inl e \<Rightarrow> False
             | Inr n \<Rightarrow> accepts (number_key n)) batch)
   = length batch"
  by (induction batch arbitrary: i) (auto split: sum.splits)

text \<open>
  Claim C4. \<open>importBatch\<close> judges every row on its own: the errors it returns are, in row
  order, the index, text and reason of exactly the rows whose text does not normalize
  (ParseError) or whose write the storage refuses (StorageError); every other row is
  counted as imported and its number is in the repository afterwards, whatever happened to
  the rows before it; the two counts add up to the number of rows.
\<close>

theorem importBatch_isolates_rows:
  assumes "importBatch env now reg repo batch = (repo', res)"
  shows "errors res =
       concat (map (\<lambda>(j, raw, notes_text).
                 case normalize (plan env) raw reg of
                   Inl e \<Rightarrow> [(j, raw, e)]
                 | Inr n \<Rightarrow> if storage_ok env (number_key n) then [] else [(j, raw, StorageError)])
               (enumerate 0 batch))
   \<and> importedCount res =
       length (filter (\<lambda>(raw, notes_text).
                 case normalize (plan env) raw reg of
                   Inl e \<Rightarrow> False
                 | Inr n \<Rightarrow> storage_ok env (number_key n)) batch)
   \<and> importedCount res + length (errors res) = length batch
   \<and> set (map record_key repo') = set (map record_key repo) \<union>
       {number_key n | n raw notes_text. (raw, notes_text) \<in> set batch
          \<and> normalize (plan env) raw reg = Inr n \<and> storage_ok env (number_key n)}"
proof -
  have verdict: "(case track env now [] raw notes_text reg of Inl e \<Rightarrow> [(j, raw, e)] | Inr _ \<Rightarrow> [])
      = (case normalize (plan env) raw reg of
           Inl e \<Rightarrow> [(j, raw, e)]
         | Inr n \<Rightarrow> if storage_ok env (number_key n) then [] else [(j, raw, StorageError)])"
    for j raw notes_text
    by (simp add: track_result split: sum.splits)
  have good: "(\<not> isl (track env now [] raw notes_text reg))
      = (case normalize (plan env) raw reg of
           Inl e \<Rightarrow> False
         | Inr n \<Rightarrow> storage_ok env (number_key n))"
    for raw notes_text
    by (simp add: track_result split: sum.splits)
  from assms have "import_loop env now reg 0 batch (repo, \<lparr>importedCount = 0, errors = []\<rparr>) = (repo', res)"
    by (simp add: importBatch_def)
  from import_loop_result [OF this]
  have e: "errors res =
       concat (map (\<lambda>(j, raw, notes_text).
                 case normalize (plan env) raw reg of
                   Inl e \<Rightarrow> [(j, raw, e)]
                 | Inr n \<Rightarrow> if storage_ok env (number_key n) then [] else [(j, raw, StorageError)])
               (enumerate 0 batch))"
    and c: "importedCount res =
       length (filter (\<lambda>(raw, notes_text).
                 case normalize (plan env) raw reg of
                   Inl e \<Rightarrow> False
                 | Inr n \<Rightarrow> storage_ok env (number_key n)) batch)"
    and k: "set (map record_key repo') = set (map record_key repo) \<union>
       {number_key n | n raw notes_text. (raw, notes_text) \<in> set batch
          \<and> normalize (plan env) raw reg = Inr n \<and> storage_ok env (number_key n)}"
    by (simp_all add: verdict good)
  have t: "importedCount res + length (errors res) = length batch"
    unfolding e c using verdict_counts [where tables = "plan env" and reg = reg and accepts = "storage_ok env"
        and i = 0 and batch = batch]
    by simp
  from e c t k show ?thesis by blast
qed

text \<open>
  The specification's example: \<open>+2348012345678\<close> without notes, then \<open>+234 801 234 5678\<close> with
  the notes \<open>Business contact\<close>, into the empty repository.
\<close>

theorem track_twice_one_record_witness:
  "\<exists>repo1 r1 repo2 r2.
      track \<lparr>plan = (\<lambda>stripped reg.
                if stripped = ''+2348012345678'' then Some (''234'', ''8012345678'')
                else if stripped = ''+12125551234'' then Some (''1'', ''2125551234'')
                else None),
             describe = (\<lambda>n. \<lparr>infoCarrier = ''Unknown'', infoRegion = ''Unknown'',
                infoTimezone = [], phoneType = UnknownType\<rparr>),
             storage_ok = (\<lambda>key. True)\<rparr> 1000 [] ''+2348012345678'' [] None = Inr (repo1, r1)
    \<and> track \<lparr>plan = (\<lambda>stripped reg.
                if stripped = ''+2348012345678'' then Some (''234'', ''8012345678'')
                else if stripped = ''+12125551234'' then Some (''1'', ''2125551234'')
                else None),
             describe = (\<lambda>n. \<lparr>infoCarrier = ''Unknown'', infoRegion = ''Unknown'',
                infoTimezone = [], phoneType = UnknownType\<rparr>),
             storage_ok = (\<lambda>key. True)\<rparr> 2000 repo1 ''+234 801 234 5678'' ''Business contact'' None = Inr (repo2, r2)
    \<and> filter (\<lambda>x. record_key x = (''234'', ''8012345678'')) repo2 = [r2]
    \<and> trackedNotes r2 = ''Business contact''
    \<and> dateAdded r2 = dateAdded r1
    \<and> lastTracked r2 = 2000
    \<and> length repo2 = length repo1
    \<and> repo_ok repo2"
proof -
  let ?env = "\<lparr>plan = (\<lambda>stripped reg.
                if stripped = ''+2348012345678'' then Some (''234'', ''8012345678'')
                else if stripped = ''+12125551234'' then Some (''1'', ''2125551234'')
                else None),
             describe = (\<lambda>n. \<lparr>infoCarrier = ''Unknown'', infoRegion = ''Unknown'',
                infoTimezone = [], phoneType = UnknownType\<rparr>),
             storage_ok = (\<lambda>key. True)\<rparr>"
  let ?n1 = "\<lparr>countryCode = ''234'', nationalNumber = ''8012345678'', rawInput = ''+2348012345678''\<rparr>"
  let ?n2 = "\<lparr>countryCode = ''234'', nationalNumber = ''8012345678'', rawInput = ''+234 801 234 5678''\<rparr>"
  have ok: "repo_ok []" by (simp add: repo_ok_def)
  have n1: "normalize (plan ?env) ''+2348012345678'' None = Inr ?n1"
    by (simp add: normalize_def isDigit_def)
  have n2: "normalize (plan ?env) ''+234 801 234 5678'' None = Inr ?n2"
    by (simp add: normalize_def isDigit_def)
  have same: "number_key ?n1 = number_key ?n2" by (simp add: number_key_def)
  have st: "storage_ok ?env (number_key ?n1)" by simp
  have key: "number_key ?n1 = (''234'', ''8012345678'')" by (simp add: number_key_def)
  from track_twice_one_record [OF ok n1 n2 same st, of 1000 "[]" 2000 "''Business contact''"]
  show ?thesis unfolding key .
qed

text \<open>
  The specification's example: the rows \<open>+2348012345678\<close>, \<open>not-a-number\<close>, \<open>+12125551234\<close>
  give two imported rows and the one error of row 1, a ParseError.
\<close>

theorem importBatch_isolates_rows_witness:
  "importedCount (snd (importBatch \<lparr>plan = (\<lambda>stripped reg.
                if stripped = ''+2348012345678'' then Some (''234'', ''8012345678'')
                else if stripped = ''+12125551234'' then Some (''1'', ''2125551234'')
                else None),
             describe = (\<lambda>n. \<lparr>infoCarrier = ''Unknown'', infoRegion = ''Unknown'',
                infoTimezone = [], phoneType = UnknownType\<rparr>),
             storage_ok = (\<lambda>key. True)\<rparr> 1000 None []
       [(''+2348012345678'', []), (''not-a-number'', []), (''+12125551234'', [])])) = 2
   \<and> errors (snd (importBatch \<lparr>plan = (\<lambda>stripped reg.
                if stripped = ''+2348012345678'' then Some (''234'', ''8012345678'')
                else if stripped = ''+12125551234'' then Some (''1'', ''2125551234'')
                else None),
             describe = (\<lambda>n. \<lparr>infoCarrier = ''Unknown'', infoRegion = ''Unknown'',
                infoTimezone = [], phoneType = UnknownType\<rparr>),
             storage_ok = (\<lambda>key. True)\<rparr> 1000 None []
       [(''+2348012345678'', []), (''not-a-number'', []), (''+12125551234'', [])]))
     = [(1, ''not-a-number'', ParseError)]"
proof -
  let ?env = "\<lparr>plan = (\<lambda>stripped reg.
                if stripped = ''+2348012345678'' then Some (''234'', ''8012345678'')
                else if stripped = ''+12125551234'' then Some (''1'', ''2125551234'')
                else None),
             describe = (\<lambda>n. \<lparr>infoCarrier = ''Unknown'', infoRegion = ''Unknown'',
                infoTimezone = [], phoneType = UnknownType\<rparr>),
             storage_ok = (\<lambda>key. True)\<rparr>"
  let ?batch = "[(''+2348012345678'', []), (''not-a-number'', []), (''+12125551234'', [])]"
  let ?plan = "\<lambda>stripped (reg :: string option).
            if stripped = ''+2348012345678'' then Some (''234'', ''8012345678'')
            else if stripped = ''+12125551234'' then Some (''1'', ''2125551234'')
            else None"
  have run: "importBatch ?env 1000 None [] ?batch
      = (fst (importBatch ?env 1000 None [] ?batch), snd (importBatch ?env 1000 None [] ?batch))"
    by simp
  have a: "normalize ?plan ''+2348012345678'' None
      = Inr \<lparr>countryCode = ''234'', nationalNumber = ''8012345678'', rawInput = ''+2348012345678''\<rparr>"
    by (simp add: normalize_def isDigit_def)
  have b: "normalize ?plan ''not-a-number'' None = Inl ParseError"
    by (simp add: normalize_def isDigit_def)
  have c: "normalize ?plan ''+12125551234'' None
      = Inr \<lparr>countryCode = ''1'', nationalNumber = ''2125551234'', rawInput = ''+12125551234''\<rparr>"
    by (simp add: normalize_def isDigit_def)
  from importBatch_isolates_rows [OF run] show ?thesis
    by (simp add: a b c enumerate_simps)
qed

lemma concat_pages:
  "concat (map (\<lambda>i. take k (drop (i * k) xs)) [0..<n]) = take (n * k) xs"
proof (induction n)
  case 0
  then show ?case by simp
next
  case (Suc n)
  have "take (n * k) xs @ take k (drop (n * k) xs) = take (n * k + k) xs"
    by (simp add: take_add)
  with Suc show ?case by (simp add: add.commute)
qed

lemma page_offset: "1 \<le> k \<Longrightarrow> nat ((int (Suc i) - 1) * k) = i * nat k"
  by (simp add: nat_mult_distrib)

lemma pages_reach_end:
  fixes k :: int
  assumes "1 \<le> k" and "(int m + k - 1) div k < p"
  shows "m \<le> nat ((p - 1) * k)"
proof -
  let ?a = "int m + k - 1"
  have "?a = ?a div k * k + ?a mod k" by simp
  moreover have "?a mod k < k" using assms(1) by simp
  ultimately have "int m \<le> ?a div k * k" by linarith
  also have "\<dots> \<le> (p - 1) * k"
    using assms by (intro mult_right_mono) auto
  finally show ?thesis by linarith
qed

lemma by_date_desc_sorted:
  "sorted_wrt (\<lambda>a b. dateAdded b \<le> dateAdded a) (by_date_desc repo)"
proof -
  have "sorted (map (\<lambda>r. - dateAdded r) (by_date_desc repo))"
    by (simp add: by_date_desc_def)
  then show ?thesis by (simp add: sorted_map)
qed

text \<open>
  Claim C3. For a page size \<open>k\<close> of at least 1 and the empty search term, the pages 1, 2, ...
  up to any page count that reaches the end are all returned without error, and put end to
  end they are the stored records ordered by \<open>dateAdded\<close> descending, each record once; a
  page beyond the last is the empty slice; a page or page size of zero or less is rejected
  with InvalidArgument.
\<close>

theorem list_pages_cover:
  assumes "1 \<le> k"
  shows "(\<forall>n. int (length repo) \<le> int n * k \<longrightarrow>
        (\<exists>ls. map (\<lambda>p. list_records repo (int p) k []) [1..<Suc n] = map Inr ls
            \<and> concat (map records ls) = by_date_desc repo))
   \<and> mset (by_date_desc repo) = mset repo
   \<and> sorted_wrt (\<lambda>a b. dateAdded b \<le> dateAdded a) (by_date_desc repo)
   \<and> (\<forall>p. (int (length repo) + k - 1) div k < p \<and> 1 \<le> p \<longrightarrow>
        list_records repo p k [] =
          Inr \<lparr>records = [], page = p, totalPages = (int (length repo) + k - 1) div k\<rparr>)
   \<and> (\<forall>p j s. p \<le> 0 \<or> j \<le> 0 \<longrightarrow> list_records repo p j s = Inl InvalidArgument)"
proof -
  let ?sorted = "by_date_desc repo"
  let ?T = "(int (length repo) + k - 1) div k"
  let ?page = "\<lambda>i. \<lparr>records = take (nat k) (drop (i * nat k) ?sorted), page = int (Suc i),
      totalPages = ?T\<rparr>"
  have len: "length ?sorted = length repo"
    by (simp add: by_date_desc_def)
  have one: "list_records repo (int (Suc i)) k [] = Inr (?page i)" for i
    using assms page_offset [OF assms, of i] by (simp add: list_records_def len)
  have cover: "\<exists>ls. map (\<lambda>p. list_records repo (int p) k []) [1..<Suc n] = map Inr ls
            \<and> concat (map records ls) = by_date_desc repo"
    if n: "int (length repo) \<le> int n * k" for n
  proof -
    have "[1..<Suc n] = map Suc [0..<n]"
      by (simp add: map_Suc_upt)
    then have calls: "map (\<lambda>p. list_records repo (int p) k []) [1..<Suc n] = map Inr (map ?page [0..<n])"
      by (simp add: one comp_def del: upt_Suc of_nat_Suc)
    have "length repo \<le> n * nat k"
    proof -
      have "int n * k = int (n * nat k)" using assms by simp
      with n show ?thesis by linarith
    qed
    then have "concat (map records (map ?page [0..<n])) = ?sorted"
      by (simp add: comp_def concat_pages len)
    with calls show ?thesis by blast
  qed
  have perm: "mset ?sorted = mset repo"
    by (simp add: by_date_desc_def)
  have beyond: "list_records repo p k [] = Inr \<lparr>records = [], page = p, totalPages = ?T\<rparr>"
    if "?T < p" "1 \<le> p" for p
    using that assms pages_reach_end [OF assms that(1)]
    by (simp add: list_records_def len)
  have bad: "list_records repo p j s = Inl InvalidArgument" if "p \<le> 0 \<or> j \<le> 0" for p j s
    using that by (auto simp: list_records_def)
  from cover perm by_date_desc_sorted [of repo] beyond bad show ?thesis by blast
qed

text \<open>The theorem at three records added at times 10, 30 and 20, with pages of two.\<close>

theorem list_pages_cover_witness:
  "(\<exists>ls. map (\<lambda>p. list_records
            [\<lparr>phoneNumber = \<lparr>countryCode = ''234'', nationalNumber = ''8012345678'', rawInput = ''+2348012345678''\<rparr>,
        info = \<lparr>infoCarrier = ''MTN'', infoRegion = ''Nigeria'', infoTimezone = [''Africa/Lagos''],
                phoneType = Mobile\<rparr>,
        dateAdded = 10, lastTracked = 10, trackedNotes = []\<rparr>,
       \<lparr>phoneNumber = \<lparr>countryCode = ''234'', nationalNumber = ''8031234567'', rawInput = ''+2348031234567''\<rparr>,
        info = \<lparr>infoCarrier = ''MTN'', infoRegion = ''Nigeria'', infoTimezone = [''Africa/Lagos''],
                phoneType = Mobile\<rparr>,
        dateAdded = 30, lastTracked = 30, trackedNotes = []\<rparr>,
       \<lparr>phoneNumber = \<lparr>countryCode = ''234'', nationalNumber = ''8051234567'', rawInput = ''+2348051234567''\<rparr>,
        info = \<lparr>infoCarrier = ''MTN'', infoRegion = ''Nigeria'', infoTimezone = [''Africa/Lagos''],
                phoneType = Mobile\<rparr>,
        dateAdded = 20, lastTracked = 20, trackedNotes = []\<rparr>]
            (int p) 2 []) [1..<Suc 2] = map Inr ls
        \<and> concat (map records ls) = by_date_desc
            [\<lparr>phoneNumber = \<lparr>countryCode = ''234'', nationalNumber = ''8012345678'', rawInput = ''+2348012345678''\<rparr>,
        info = \<lparr>infoCarrier = ''MTN'', infoRegion = ''Nigeria'', infoTimezone = [''Africa/Lagos''],
                phoneType = Mobile\<rparr>,
        dateAdded = 10, lastTracked = 10, trackedNotes = []\<rparr>,
       \<lparr>phoneNumber = \<lparr>countryCode = ''234'', nationalNumber = ''8031234567'', rawInput = ''+2348031234567''\<rparr>,
        info = \<lparr>infoCarrier = ''MTN'', infoRegion = ''Nigeria'', infoTimezone = [''Africa/Lagos''],
                phoneType = Mobile\<rparr>,
        dateAdded = 30, lastTracked = 30, trackedNotes = []\<rparr>,
       \<lparr>phoneNumber = \<lparr>countryCode = ''234'', nationalNumber = ''8051234567'', rawInput = ''+2348051234567''\<rparr>,
        info = \<lparr>infoCarrier = ''MTN'', infoRegion = ''Nigeria'', infoTimezone = [''Africa/Lagos''],
                phoneType = Mobile\<rparr>,
        dateAdded = 20, lastTracked = 20, trackedNotes = []\<rparr>])
   \<and> map dateAdded (by_date_desc
            [\<lparr>phoneNumber = \<lparr>countryCode = ''234'', nationalNumber = ''8012345678'', rawInput = ''+2348012345678''\<rparr>,
        info = \<lparr>infoCarrier = ''MTN'', infoRegion = ''Nigeria'', infoTimezone = [''Africa/Lagos''],
                phoneType = Mobile\<rparr>,
        dateAdded = 10, lastTracked = 10, trackedNotes = []\<rparr>,
       \<lparr>phoneNumber = \<lparr>countryCode = ''234'', nationalNumber = ''8031234567'', rawInput = ''+2348031234567''\<rparr>,
        info = \<lparr>infoCarrier = ''MTN'', infoRegion = ''Nigeria'', infoTimezone = [''Africa/Lagos''],
                phoneType = Mobile\<rparr>,
        dateAdded = 30, lastTracked = 30, trackedNotes = []\<rparr>,
       \<lparr>phoneNumber = \<lparr>countryCode = ''234'', nationalNumber = ''8051234567'', rawInput = ''+2348051234567''\<rparr>,
        info = \<lparr>infoCarrier = ''MTN'', infoRegion = ''Nigeria'', infoTimezone = [''Africa/Lagos''],
                phoneType = Mobile\<rparr>,
        dateAdded = 20, lastTracked = 20, trackedNotes = []\<rparr>]) = [30, 20, 10]
   \<and> list_records
            [\<lparr>phoneNumber = \<lparr>countryCode = ''234'', nationalNumber = ''8012345678'', rawInput = ''+2348012345678''\<rparr>,
        info = \<lparr>infoCarrier = ''MTN'', infoRegion = ''Nigeria'', infoTimezone = [''Africa/Lagos''],
                phoneType = Mobile\<rparr>,
        dateAdded = 10, lastTracked = 10, trackedNotes = []\<rparr>,
       \<lparr>phoneNumber = \<lparr>countryCode = ''234'', nationalNumber = ''8031234567'', rawInput = ''+2348031234567''\<rparr>,
        info = \<lparr>infoCarrier = ''MTN'', infoRegion = ''Nigeria'', infoTimezone = [''Africa/Lagos''],
                phoneType = Mobile\<rparr>,
        dateAdded = 30, lastTracked = 30, trackedNotes = []\<rparr>,
       \<lparr>phoneNumber = \<lparr>countryCode = ''234'', nationalNumber = ''8051234567'', rawInput = ''+2348051234567''\<rparr>,
        info = \<lparr>infoCarrier = ''MTN'', infoRegion = ''Nigeria'', infoTimezone = [''Africa/Lagos''],
                phoneType = Mobile\<rparr>,
        dateAdded = 20, lastTracked = 20, trackedNotes = []\<rparr>]
            3 2 [] = Inr \<lparr>records = [], page = 3, totalPages = 2\<rparr>
   \<and> list_records
            [\<lparr>phoneNumber = \<lparr>countryCode = ''234'', nationalNumber = ''8012345678'', rawInput = ''+2348012345678''\<rparr>,
        info = \<lparr>infoCarrier = ''MTN'', infoRegion = ''Nigeria'', infoTimezone = [''Africa/Lagos''],
                phoneType = Mobile\<rparr>,
        dateAdded = 10, lastTracked = 10, trackedNotes = []\<rparr>,
       \<lparr>phoneNumber = \<lparr>countryCode = ''234'', nationalNumber = ''8031234567'', rawInput = ''+2348031234567''\<rparr>,
        info = \<lparr>infoCarrier = ''MTN'', infoRegion = ''Nigeria'', infoTimezone = [''Africa/Lagos''],
                phoneType = Mobile\<rparr>,
        dateAdded = 30, lastTracked = 30, trackedNotes = []\<rparr>,
       \<lparr>phoneNumber = \<lparr>countryCode = ''234'', nationalNumber = ''8051234567'', rawInput = ''+2348051234567''\<rparr>,
        info = \<lparr>infoCarrier = ''MTN'', infoRegion = ''Nigeria'', infoTimezone = [''Africa/Lagos''],
                phoneType = Mobile\<rparr>,
        dateAdded = 20, lastTracked = 20, trackedNotes = []\<rparr>]
            0 2 [] = Inl InvalidArgument"
proof -
  let ?repo = "[\<lparr>phoneNumber = \<lparr>countryCode = ''234'', nationalNumber = ''8012345678'', rawInput = ''+2348012345678''\<rparr>,
        info = \<lparr>infoCarrier = ''MTN'', infoRegion = ''Nigeria'', infoTimezone = [''Africa/Lagos''],
                phoneType = Mobile\<rparr>,
        dateAdded = 10, lastTracked = 10, trackedNotes = []\<rparr>,
       \<lparr>phoneNumber = \<lparr>countryCode = ''234'', nationalNumber = ''8031234567'', rawInput = ''+2348031234567''\<rparr>,
        info = \<lparr>infoCarrier = ''MTN'', infoRegion = ''Nigeria'', infoTimezone = [''Africa/Lagos''],
                phoneType = Mobile\<rparr>,
        dateAdded = 30, lastTracked = 30, trackedNotes = []\<rparr>,
       \<lparr>phoneNumber = \<lparr>countryCode = ''234'', nationalNumber = ''8051234567'', rawInput = ''+2348051234567''\<rparr>,
        info = \<lparr>infoCarrier = ''MTN'', infoRegion = ''Nigeria'', infoTimezone = [''Africa/Lagos''],
                phoneType = Mobile\<rparr>,
        dateAdded = 20, lastTracked = 20, trackedNotes = []\<rparr>]"
  have k: "(1::int) \<le> 2" by simp
  note cover = list_pages_cover [OF k, of ?repo]
  have n: "int (length ?repo) \<le> int 2 * 2" by simp
  have a: "\<exists>ls. map (\<lambda>p. list_records ?repo (int p) 2 []) [1..<Suc 2] = map Inr ls
        \<and> concat (map records ls) = by_date_desc ?repo"
    using cover [THEN conjunct1, rule_format, OF n] .
  have b: "map dateAdded (by_date_desc ?repo) = [30, 20, 10]"
    by (simp add: by_date_desc_def)
  have t: "(int (length ?repo) + 2 - 1) div 2 = 2" by simp
  have far: "(int (length ?repo) + 2 - 1) div 2 < 3 \<and> (1::int) \<le> 3" by simp
  have c: "list_records ?repo 3 2 [] = Inr \<lparr>records = [], page = 3, totalPages = 2\<rparr>"
    using cover [THEN conjunct2, THEN conjunct2, THEN conjunct2, THEN conjunct1, rule_format, OF far]
    unfolding t .
  have z: "(0::int) \<le> 0 \<or> (2::int) \<le> 0" by simp
  have d: "list_records ?repo 0 2 [] = Inl InvalidArgument"
    using cover [THEN conjunct2, THEN conjunct2, THEN conjunct2, THEN conjunct2, rule_format, OF z] .
  from a b c d show ?thesis by (intro conjI)
qed

section \<open>Reading an export back\<close>













lemma header_no_cr: "\<forall>v \<in> set [''Phone Number'', ''Carrier'', ''Region'', ''Timezone'', ''Phone Type'', ''Date Added'',
      ''Last Tracked'', ''Notes'']. CHR 0x0D \<notin> set v"
  by simp





end
